theory Spec2Isabelle
  imports Main "HOL-Library.AList" "HOL-Library.Multiset" "HOL-Library.List_Lexorder" "HOL-Library.Char_ord"
begin

section \<open>Python strings\<close>

text \<open>
  Strings are byte strings (\<open>char list\<close>); a character outside ASCII is the sequence of its
  UTF-8 bytes.  The character classes (\<open>isdigit\<close>, \<open>isalpha\<close>, \<open>\d\<close>) and \<open>lower\<close> are
  the ASCII ones, except for the patterns of \<open>validate_breadboard_positions\<close>, where \<open>\d\<close>
  is the class of all decimal digits of Unicode.  Messages printed by the code (\<open>print\<close>) are not part of the model: a
  function is modelled by its return value, the exception it raises, and the objects of its
  caller that it changes.
\<close>

datatype py_error = KeyError | ValueError | IndexError | UnboundLocalError | AttributeError

definition isdigit_char :: "char \<Rightarrow> bool" where
  "isdigit_char c = (c \<in> set ''0123456789'')"

definition isalpha_char :: "char \<Rightarrow> bool" where
  "isalpha_char c =
     (c \<in> set ''abcdefghijklmnopqrstuvwxyz'' \<or> c \<in> set ''ABCDEFGHIJKLMNOPQRSTUVWXYZ'')"

text \<open>\<open>s.isdigit()\<close>: false on the empty string.\<close>

definition isdigit :: "string \<Rightarrow> bool" where
  "isdigit s = (s \<noteq> [] \<and> list_all isdigit_char s)"

definition lower_char :: "char \<Rightarrow> char" where
  "lower_char c =
     (if c \<in> set ''ABCDEFGHIJKLMNOPQRSTUVWXYZ'' then char_of (of_char c + (32 :: nat)) else c)"

definition lower :: "string \<Rightarrow> string" where
  "lower s = map lower_char s"


text \<open>\<open>s.startswith(p)\<close>, \<open>s.endswith(p)\<close> and the substring test \<open>p in s\<close>.\<close>

fun startswith :: "string \<Rightarrow> string \<Rightarrow> bool" where
  "startswith s [] = True"
| "startswith [] (p # ps) = False"
| "startswith (c # cs) (p # ps) = (c = p \<and> startswith cs ps)"

definition endswith :: "string \<Rightarrow> string \<Rightarrow> bool" where
  "endswith s p = startswith (rev s) (rev p)"

fun contains :: "string \<Rightarrow> string \<Rightarrow> bool" where
  "contains [] p = (p = [])"
| "contains (c # cs) p = (startswith (c # cs) p \<or> contains cs p)"

text \<open>\<open>s.split(d, 1)\<close> and \<open>s.split(d)\<close> for a one-character separator.\<close>

definition split1 :: "string \<Rightarrow> char \<Rightarrow> string list" where
  "split1 s d =
     (if d \<in> set s then [takeWhile (\<lambda>c. c \<noteq> d) s, tl (dropWhile (\<lambda>c. c \<noteq> d) s)] else [s])"

fun split_all :: "string \<Rightarrow> char \<Rightarrow> string list" where
  "split_all [] d = [[]]"
| "split_all (c # cs) d =
     (if c = d then [] # split_all cs d
      else (case split_all cs d of [] \<Rightarrow> [[c]] | p # ps \<Rightarrow> (c # p) # ps))"

text \<open>
  \<open>s.replace(old, new)\<close> for a non-empty \<open>old\<close>: the occurrences are replaced from the
  left, without overlap.  The counter is the number of characters of a matched occurrence
  still to be skipped.
\<close>

fun replace_from :: "nat \<Rightarrow> string \<Rightarrow> string \<Rightarrow> string \<Rightarrow> string" where
  "replace_from k [] old new = []"
| "replace_from (Suc k) (c # cs) old new = replace_from k cs old new"
| "replace_from 0 (c # cs) old new =
     (if startswith (c # cs) old then new @ replace_from (length old - 1) cs old new
      else c # replace_from 0 cs old new)"

definition replace :: "string \<Rightarrow> string \<Rightarrow> string \<Rightarrow> string" where
  "replace s old new = replace_from 0 s old new"

text \<open>\<open>s.strip()\<close>: the ASCII whitespace characters are removed at both ends.\<close>

definition isspace_char :: "char \<Rightarrow> bool" where
  "isspace_char c = (c \<in> set [CHR '' '', CHR 0x09, CHR 0x0A, CHR 0x0B, CHR 0x0C, CHR 0x0D,
                               CHR 0x1C, CHR 0x1D, CHR 0x1E, CHR 0x1F])"

definition strip :: "string \<Rightarrow> string" where
  "strip s = rev (dropWhile isspace_char (rev (dropWhile isspace_char s)))"

text \<open>\<open>str(n)\<close> on a natural number.\<close>

function str_nat :: "nat \<Rightarrow> string" where
  "str_nat n = (if n < 10 then [char_of (48 + n)] else str_nat (n div 10) @ [char_of (48 + n mod 10)])"
  by pat_completeness auto
termination
  by (relation "measure id") auto

declare str_nat.simps [simp del]

text \<open>
  The regular expressions of the code end in \<open>$\<close>, which matches at the end of the string
  and also just before a line feed that ends the string.
\<close>

definition before_dollar :: "(string \<Rightarrow> bool) \<Rightarrow> string \<Rightarrow> bool" where
  "before_dollar P s = (P s \<or> (s \<noteq> [] \<and> last s = CHR 0x0A \<and> P (butlast s)))"

text \<open>
  \<open>re.search(r'(\d+)$', s)\<close>: the group is the run of digits that ends the string (or that
  ends just before its final line feed); there is no match when the run is empty.
\<close>

definition trailing_digits :: "string \<Rightarrow> string" where
  "trailing_digits s = rev (takeWhile isdigit_char (rev s))"

definition search_trailing_number :: "string \<Rightarrow> string option" where
  "search_trailing_number s =
     (let body = (if s \<noteq> [] \<and> last s = CHR 0x0A then butlast s else s);
          num = trailing_digits body
      in if num = [] then None else Some num)"

text \<open>\<open>re.sub(r'\d+$', '', s)\<close>: the same run of digits is removed.\<close>

definition sub_trailing_number :: "string \<Rightarrow> string" where
  "sub_trailing_number s =
     (if s \<noteq> [] \<and> last s = CHR 0x0A
      then rev (dropWhile isdigit_char (rev (butlast s))) @ [CHR 0x0A]
      else rev (dropWhile isdigit_char (rev s)))"

section \<open>The component catalog\<close>

text \<open>
  The catalog source document (\<open>module_info.json\<close>) is a list of records; the lookup
  tables are the dictionaries that the two mapping modules build from it when they are
  loaded.  A dictionary is an association list in insertion order, written with
  \<^const>\<open>AList.update\<close> and read with \<^const>\<open>map_of\<close>.
\<close>

record pin_info =
  pin_name :: string
  description :: string
  pin_aliases :: "string list"

record module_entry =
  wokwi_type :: string
  shdf_type :: string
  shdf_type_aliases :: "string list"
  pins :: "pin_info list"

type_synonym dict = "(string \<times> string) list"

record catalog =
  TYPE_MAPPINGS :: dict
  SHDF_TYPE_ALIASES :: dict
  REVERSE_TYPE_MAPPINGS :: dict
  PIN_MAPPINGS :: "(string \<times> dict) list"
  PIN_NAME_ALIASES :: "(string \<times> dict) list"
  REVERSE_PIN_MAPPINGS :: "(string \<times> dict) list"
  COMPONENT_TYPE_ALIASES :: dict

subsection \<open>type\_mappings.py\<close>

definition load_module_info_types :: "module_entry list \<Rightarrow> (string \<times> module_entry) list" where
  "load_module_info_types module_info =
     foldl (\<lambda>component_dict component.
              if wokwi_type component \<noteq> []
              then AList.update (wokwi_type component) component component_dict
              else component_dict) [] module_info"

definition update_type_mappings_from_module_info :: "module_entry list \<Rightarrow> dict \<times> dict \<times> dict" where
  "update_type_mappings_from_module_info module_info =
     (let (tm, al) =
            foldl (\<lambda>(tm, al) (wokwi_component_type, component).
                     let shdf_component_type = lower (shdf_type component);
                         al1 = AList.update shdf_component_type shdf_component_type al
                     in (AList.update wokwi_component_type shdf_component_type tm,
                         foldl (\<lambda>d alias. AList.update (lower alias) shdf_component_type d)
                               al1 (shdf_type_aliases component)))
                  ([], []) (load_module_info_types module_info)
      in (tm, al, foldl (\<lambda>d (w, s). AList.update s w d) [] tm))"

definition wokwi_to_shdf_type :: "catalog \<Rightarrow> string \<Rightarrow> string" where
  "wokwi_to_shdf_type cat wokwi_component_type =
     (case map_of (TYPE_MAPPINGS cat) wokwi_component_type of
        Some t \<Rightarrow> t
      | None \<Rightarrow> replace (lower (replace wokwi_component_type ''wokwi-'' [])) ''-'' '' '')"

definition shdf_to_wokwi_type :: "catalog \<Rightarrow> string \<Rightarrow> string" where
  "shdf_to_wokwi_type cat shdf_component_type =
     (case map_of (REVERSE_TYPE_MAPPINGS cat) shdf_component_type of
        Some t \<Rightarrow> t
      | None \<Rightarrow> ''wokwi-'' @ replace shdf_component_type '' '' ''-'')"

text \<open>
  \<open>shdf_alias_check\<close> returns its argument when the lookup fails; it returns \<open>None\<close>
  only when it is given \<open>None\<close> (a component without \<open>type\<close>).
\<close>

definition shdf_alias_check :: "catalog \<Rightarrow> string option \<Rightarrow> string option" where
  "shdf_alias_check cat shdf_component_type =
     (case shdf_component_type of
        None \<Rightarrow> None
      | Some t \<Rightarrow> (case map_of (SHDF_TYPE_ALIASES cat) t of Some c \<Rightarrow> Some c | None \<Rightarrow> Some t))"

subsection \<open>pin\_mappings.py\<close>

definition load_module_info_pins :: "module_entry list \<Rightarrow> (string \<times> module_entry) list" where
  "load_module_info_pins module_info =
     foldl (\<lambda>component_dict component.
              if wokwi_type component \<noteq> []
              then AList.update (lower (shdf_type component)) component component_dict
              else component_dict) [] module_info"

text \<open>
  The neutral name derived from a simulator pin name.  Unpacking
  \<open>prefix, suffix = wokwi_pin.split(".")\<close> raises \<open>ValueError\<close> when the name has more
  than one dot.
\<close>

definition derive_shdf_pin :: "string \<Rightarrow> string \<Rightarrow> py_error + string" where
  "derive_shdf_pin shdf_component_type wokwi_pin =
     (if isdigit wokwi_pin then Inr (''pin'' @ wokwi_pin)
      else if shdf_component_type \<in> set [''arduino uno'', ''7-segment display'']
      then Inr (map lower_char (filter (\<lambda>c. isdigit_char c \<or> c \<noteq> CHR ''.'') wokwi_pin))
      else if CHR ''.'' \<in> set wokwi_pin
      then (case split_all wokwi_pin (CHR ''.'') of
              [prefix, suffix] \<Rightarrow>
                Inr ((if isdigit prefix then ''pin'' @ prefix else lower prefix) @ ''.'' @
                     (if isdigit suffix then ''pin'' @ suffix else lower suffix))
            | _ \<Rightarrow> Inl ValueError)
      else Inr (lower wokwi_pin))"

fun pin_tables :: "string \<Rightarrow> pin_info list \<Rightarrow> dict \<times> dict \<times> dict \<Rightarrow> py_error + dict \<times> dict \<times> dict" where
  "pin_tables ty [] tabs = Inr tabs"
| "pin_tables ty (pin # rest) (pm, al, rv) =
     (if pin_name pin \<noteq> [] \<and> description pin \<noteq> []
      then (case derive_shdf_pin ty (pin_name pin) of
              Inl e \<Rightarrow> Inl e
            | Inr shdf_pin \<Rightarrow>
                pin_tables ty rest
                  (AList.update (pin_name pin) shdf_pin pm,
                   foldl (\<lambda>d alias. AList.update (lower alias) shdf_pin d)
                         (AList.update (lower shdf_pin) shdf_pin al) (pin_aliases pin),
                   AList.update shdf_pin (pin_name pin) rv))
      else pin_tables ty rest (pm, al, rv))"

fun update_pin_mappings_loop ::
  "(string \<times> module_entry) list \<Rightarrow> catalog \<Rightarrow> py_error + catalog" where
  "update_pin_mappings_loop [] cat = Inr cat"
| "update_pin_mappings_loop ((ty, component) # rest) cat =
     (let cta = foldl (\<lambda>d alias. AList.update (lower alias) ty d)
                      (AList.update ty ty (COMPONENT_TYPE_ALIASES cat)) (shdf_type_aliases component)
      in case pin_tables ty (pins component) ([], [], []) of
           Inl e \<Rightarrow> Inl e
         | Inr (pm, al, rv) \<Rightarrow>
             update_pin_mappings_loop rest
               (cat\<lparr>PIN_MAPPINGS := AList.update ty pm (PIN_MAPPINGS cat),
                    PIN_NAME_ALIASES := AList.update ty al (PIN_NAME_ALIASES cat),
                    REVERSE_PIN_MAPPINGS := AList.update ty rv (REVERSE_PIN_MAPPINGS cat),
                    COMPONENT_TYPE_ALIASES := cta\<rparr>))"

text \<open>The catalog after both modules are loaded.\<close>

definition build_catalog :: "module_entry list \<Rightarrow> py_error + catalog" where
  "build_catalog module_info =
     (let (tm, al, rv) = update_type_mappings_from_module_info module_info
      in update_pin_mappings_loop (load_module_info_pins module_info)
           \<lparr>TYPE_MAPPINGS = tm, SHDF_TYPE_ALIASES = al, REVERSE_TYPE_MAPPINGS = rv,
            PIN_MAPPINGS = [], PIN_NAME_ALIASES = [], REVERSE_PIN_MAPPINGS = [],
            COMPONENT_TYPE_ALIASES = []\<rparr>)"

text \<open>
  \<open>wokwi_to_shdf_pin\<close>: when the component type is not in the alias table, the handler
  reads \<open>shdf_component_type\<close>, which has no value yet: \<open>UnboundLocalError\<close>.
\<close>

definition wokwi_to_shdf_pin :: "catalog \<Rightarrow> string \<Rightarrow> string \<Rightarrow> py_error + string" where
  "wokwi_to_shdf_pin cat component_id wokwi_pin =
     (let wokwi_pin_lower = lower wokwi_pin;
          wokwi_component_type = sub_trailing_number component_id
      in case map_of (COMPONENT_TYPE_ALIASES cat) (lower wokwi_component_type) of
           None \<Rightarrow> Inl UnboundLocalError
         | Some shdf_component_type \<Rightarrow>
             (case map_of (PIN_MAPPINGS cat) shdf_component_type of
                None \<Rightarrow> Inr wokwi_pin
              | Some component_mappings \<Rightarrow>
                  (case map_of component_mappings wokwi_pin of
                     Some shdf_pin \<Rightarrow> Inr shdf_pin
                   | None \<Rightarrow>
                       (case map_of component_mappings wokwi_pin_lower of
                          Some shdf_pin \<Rightarrow> Inr shdf_pin
                        | None \<Rightarrow> Inr wokwi_pin))))"

text \<open>
  \<open>shdf_to_wokwi_pin\<close>: the two alias lookups are guarded (on failure the name is kept),
  the two final dictionary reads are not: \<open>KeyError\<close>.
\<close>

definition shdf_to_wokwi_pin :: "catalog \<Rightarrow> string \<Rightarrow> string \<Rightarrow> py_error + string" where
  "shdf_to_wokwi_pin cat shdf_pin shdf_component_type0 =
     (let shdf_component_type =
            (case map_of (COMPONENT_TYPE_ALIASES cat) (lower shdf_component_type0) of
               Some t \<Rightarrow> t | None \<Rightarrow> shdf_component_type0);
          shdf_pin_lower =
            (case map_of (PIN_NAME_ALIASES cat) shdf_component_type of
               None \<Rightarrow> lower shdf_pin
             | Some aliases \<Rightarrow>
                 (case map_of aliases (lower shdf_pin) of Some p \<Rightarrow> p | None \<Rightarrow> lower shdf_pin))
      in case map_of (REVERSE_PIN_MAPPINGS cat) shdf_component_type of
           None \<Rightarrow> Inl KeyError
         | Some component_mappings \<Rightarrow>
             (case map_of component_mappings shdf_pin_lower of
                None \<Rightarrow> Inl KeyError
              | Some wokwi_pin \<Rightarrow> Inr wokwi_pin))"

section \<open>Documents\<close>

text \<open>
  A neutral (SHDF) component always has an \<open>id\<close>; \<open>type\<close> and \<open>properties\<close> may be absent
  (the code reads them with \<open>get\<close> and \<open>in\<close>).  A connection is a list of endpoint
  strings.  A simulator connection is \<open>[from, to, colour, routing]\<close>.
\<close>

record shdf_component =
  comp_id :: string
  comp_type :: "string option"
  properties :: "dict option"

record shdf_doc =
  components :: "shdf_component list"
  connections :: "string list list"

record wokwi_part =
  part_type :: string
  part_id :: string
  top :: int
  left :: int
  rotate :: "int option"
  attrs :: "dict option"

record wokwi_connection =
  from_point :: string
  to_point :: string
  wire_color :: string
  routing :: "string list"

record wokwi_doc =
  version :: nat
  author :: string
  editor :: string
  parts :: "wokwi_part list"
  wokwi_connections :: "wokwi_connection list"




section \<open>standard\_to\_wokwi.py\<close>

definition get_wokwi_type :: "catalog \<Rightarrow> string \<Rightarrow> string" where
  "get_wokwi_type cat shdf_component_type = shdf_to_wokwi_type cat shdf_component_type"

definition get_wokwi_id :: "catalog \<Rightarrow> string \<Rightarrow> string \<Rightarrow> string" where
  "get_wokwi_id cat shdf_component_id shdf_component_type =
     (let match = search_trailing_number shdf_component_id
      in if shdf_alias_check cat (Some shdf_component_id) = Some shdf_component_type \<and> match \<noteq> None
         then shdf_component_type @ ''1''
         else (case match of
                 Some number \<Rightarrow> shdf_component_type @ number
               | None \<Rightarrow> shdf_component_id))"

text \<open>The position is \<open>(top, left, rotate)\<close>; \<open>rotate\<close> is absent for most types.\<close>

definition calculate_position :: "string \<Rightarrow> nat \<Rightarrow> string \<Rightarrow> int \<times> int \<times> int option" where
  "calculate_position wokwi_component_type index mode =
     (if wokwi_component_type = ''wokwi-arduino-uno'' then (200, 20, None)
      else if wokwi_component_type = ''wokwi-breadboard'' then (0, 100, None)
      else if wokwi_component_type = ''wokwi-resistor'' then (100, 150 + int index * 50, Some 90)
      else if wokwi_component_type = ''wokwi-led'' then (50, 150 + int index * 50, None)
      else if wokwi_component_type = ''wokwi-pushbutton'' then (150, 150 + int index * 50, Some 90)
      else if mode = ''logical'' then (100, 200 + int index * 80, None)
      else (50 + int index * 30, 150 + int index * 40, None))"

definition convert_to_wokwi_point :: "catalog \<Rightarrow> string \<Rightarrow> dict \<Rightarrow> py_error + string" where
  "convert_to_wokwi_point cat shdf_point component_type_map =
     (if contains shdf_point ''breadboard''
      then (case split1 shdf_point (CHR ''.'') of
              [bb_id, position] \<Rightarrow>
                (if CHR ''p'' \<in> set position \<or> CHR ''n'' \<in> set position
                 then (let rail_type = filter isalpha_char position;
                           col = filter isdigit_char position
                       in Inr (bb_id @ '':'' @ rail_type @ ''.'' @ col))
                 else (let col = filter isdigit_char position;
                           row = filter isalpha_char position;
                           side = (if contains ''abcde'' (lower row) then ''t'' else ''b'')
                       in Inr (bb_id @ '':'' @ col @ side @ ''.'' @ row)))
            | _ \<Rightarrow> Inl ValueError)
      else if CHR ''.'' \<in> set shdf_point
      then (case split1 shdf_point (CHR ''.'') of
              [shdf_component_id, shdf_pin] \<Rightarrow>
                (case map_of component_type_map shdf_component_id of
                   None \<Rightarrow> Inl KeyError
                 | Some shdf_component_type \<Rightarrow>
                     (case shdf_to_wokwi_pin cat shdf_pin shdf_component_type of
                        Inl e \<Rightarrow> Inl e
                      | Inr wokwi_pin \<Rightarrow>
                          Inr (get_wokwi_id cat shdf_component_id shdf_component_type
                               @ '':'' @ wokwi_pin)))
            | _ \<Rightarrow> Inl ValueError)
      else Inr shdf_point)"

text \<open>
  The colour of a wire.  The last rule takes the MD5 digest of the two endpoints, read as
  a number; the digest function is a parameter.
\<close>

definition determine_wire_color :: "(string \<Rightarrow> nat) \<Rightarrow> string \<Rightarrow> string \<Rightarrow> string" where
  "determine_wire_color md5 from_pt to_pt =
     (let points = from_pt @ to_pt
      in if contains (lower points) ''gnd'' then ''black''
         else if contains (lower points) ''5v'' \<or> contains (lower points) ''3.3v'' then ''red''
         else if contains points ''anode'' \<or> contains points ''cathode'' then ''green''
         else [''blue'', ''green'', ''yellow'', ''orange'', ''purple''] ! (md5 points mod 5))"

text \<open>
  The loop over \<open>component["properties"]\<close>.  A resistor value that is not a string of digits
  after the unit is removed raises \<open>ValueError\<close>.
\<close>

fun extract_attrs :: "string \<Rightarrow> dict \<Rightarrow> dict \<Rightarrow> py_error + dict" where
  "extract_attrs shdf_component_type [] out = Inr out"
| "extract_attrs shdf_component_type ((key, val) # rest) out =
     (if key \<in> set [''color'', ''digits'']
      then extract_attrs shdf_component_type rest (AList.update key val out)
      else if key = ''value'' \<and> shdf_component_type = ''resistor''
      then (let v = strip (replace (replace val ''ohm'' []) ''k'' ''000'')
            in if \<not> isdigit v then Inl ValueError
               else extract_attrs shdf_component_type rest (AList.update ''value'' v out))
      else extract_attrs shdf_component_type rest out)"

text \<open>
  One round of the loop over the components.  The result is the component as the caller
  sees it afterwards (the code assigns \<open>component["properties"]\<close> for a 4-digit display),
  and the part with the neutral type stored in \<open>component_type_map\<close>, or \<open>None\<close> for a
  component that is skipped.
\<close>

definition convert_component ::
  "catalog \<Rightarrow> string \<Rightarrow> nat \<Rightarrow> shdf_component \<Rightarrow>
   shdf_component \<times> (py_error + (wokwi_part \<times> string) option)" where
  "convert_component cat mode i component =
     (case shdf_alias_check cat (comp_type component) of
        None \<Rightarrow> (component, Inr None)
      | Some checked \<Rightarrow>
          (let four = (checked = ''4-digit 7-segment display'');
               shdf_component_type = (if four then ''7-segment display'' else checked);
               component' = (if four then component\<lparr>properties := Some [(''digits'', ''4'')]\<rparr>
                             else component);
               wokwi_component_type = get_wokwi_type cat shdf_component_type;
               wokwi_component_id = get_wokwi_id cat (comp_id component) shdf_component_type
           in case (case properties component' of
                      None \<Rightarrow> Inr []
                    | Some props \<Rightarrow> extract_attrs shdf_component_type props []) of
                Inl e \<Rightarrow> (component', Inl e)
              | Inr attrs' \<Rightarrow>
                  (case calculate_position wokwi_component_type i mode of
                     (t, l, r) \<Rightarrow>
                       (component',
                        Inr (Some (\<lparr>part_type = wokwi_component_type, part_id = wokwi_component_id,
                                    top = t, left = l, rotate = r, attrs = Some attrs'\<rparr>,
                                   shdf_component_type))))))"

fun convert_components ::
  "catalog \<Rightarrow> string \<Rightarrow> nat \<Rightarrow> shdf_component list \<Rightarrow> wokwi_part list \<Rightarrow> dict \<Rightarrow>
   shdf_component list \<times> (py_error + wokwi_part list \<times> dict)" where
  "convert_components cat mode i [] ps component_type_map = ([], Inr (ps, component_type_map))"
| "convert_components cat mode i (c # cs) ps component_type_map =
     (case convert_component cat mode i c of
        (c', Inl e) \<Rightarrow> (c' # cs, Inl e)
      | (c', Inr None) \<Rightarrow>
          (case convert_components cat mode (Suc i) cs ps component_type_map of
             (cs', r) \<Rightarrow> (c' # cs', r))
      | (c', Inr (Some (p, ty))) \<Rightarrow>
          (case convert_components cat mode (Suc i) cs (ps @ [p])
                  (AList.update (comp_id c) ty component_type_map) of
             (cs', r) \<Rightarrow> (c' # cs', r)))"

text \<open>
  The loop over the connections.  A connection that is a list but not of two endpoints
  reaches \<open>connection.get\<close>, which a list does not have: \<open>AttributeError\<close>.
\<close>

fun convert_connections ::
  "catalog \<Rightarrow> (string \<Rightarrow> nat) \<Rightarrow> dict \<Rightarrow> string list list \<Rightarrow> py_error + wokwi_connection list" where
  "convert_connections cat md5 ctm [] = Inr []"
| "convert_connections cat md5 ctm (connection # rest) =
     (case connection of
        [p0, p1] \<Rightarrow>
          (case convert_to_wokwi_point cat p0 ctm of
             Inl e \<Rightarrow> Inl e
           | Inr endpoint1_wokwi \<Rightarrow>
               (case convert_to_wokwi_point cat p1 ctm of
                  Inl e \<Rightarrow> Inl e
                | Inr endpoint2_wokwi \<Rightarrow>
                    (case convert_connections cat md5 ctm rest of
                       Inl e \<Rightarrow> Inl e
                     | Inr ws \<Rightarrow>
                         Inr (if endpoint1_wokwi \<noteq> [] \<and> endpoint2_wokwi \<noteq> []
                              then \<lparr>from_point = endpoint1_wokwi, to_point = endpoint2_wokwi,
                                    wire_color = determine_wire_color md5 p0 p1, routing = []\<rparr> # ws
                              else ws))))
      | _ \<Rightarrow> Inl AttributeError)"

text \<open>
  The result is the caller's document after the call, and the diagram or the exception.
\<close>

definition convert_standard_to_wokwi ::
  "catalog \<Rightarrow> (string \<Rightarrow> nat) \<Rightarrow> shdf_doc \<Rightarrow> string \<Rightarrow> shdf_doc \<times> (py_error + wokwi_doc)" where
  "convert_standard_to_wokwi cat md5 standard_diagram mode =
     (case convert_components cat mode 0 (components standard_diagram) [] [] of
        (cs', Inl e) \<Rightarrow> (standard_diagram\<lparr>components := cs'\<rparr>, Inl e)
      | (cs', Inr (ps, component_type_map)) \<Rightarrow>
          (standard_diagram\<lparr>components := cs'\<rparr>,
           case convert_connections cat md5 component_type_map (connections standard_diagram) of
             Inl e \<Rightarrow> Inl e
           | Inr ws \<Rightarrow>
               Inr \<lparr>version = 1, author = ''Arduino-LLM'', editor = ''Inpyo Song and Eunji Jeon'',
                    parts = ps, wokwi_connections = ws\<rparr>))"

text \<open>
  The simulator type and id that the loop over the components gives to a component that
  has a type: the type after the alias check, with the 4-digit display renamed.
\<close>

definition part_of :: "catalog \<Rightarrow> shdf_component \<Rightarrow> string \<times> string" where
  "part_of cat c =
     (let ty = (case shdf_alias_check cat (comp_type c) of
                  Some t \<Rightarrow> if t = ''4-digit 7-segment display'' then ''7-segment display'' else t
                | None \<Rightarrow> [])
      in (shdf_to_wokwi_type cat ty, get_wokwi_id cat (comp_id c) ty))"


text \<open>
  The properties that the loop over the components accepts: the value of a resistor is a
  string of digits once \<open>ohm\<close> is removed, \<open>k\<close> replaced and whitespace stripped.
\<close>

definition properties_accepted :: "catalog \<Rightarrow> shdf_component \<Rightarrow> bool" where
  "properties_accepted cat c =
     (if shdf_alias_check cat (comp_type c) = Some ''resistor''
      then (case properties c of
              None \<Rightarrow> True
            | Some ps \<Rightarrow>
                list_all (\<lambda>(key, val). if key = ''value''
                                        then isdigit (strip (replace (replace val ''ohm'' []) ''k'' ''000''))
                                        else True) ps)
      else True)"



section \<open>wokwi\_to\_standard.py\<close>

text \<open>
  \<open>_convert_connection_point\<close> returns \<open>None\<close> for a point that is to be skipped.
  \<open>split(":", 1)[1]\<close> raises \<open>IndexError\<close> on a point without a colon.
\<close>

definition convert_connection_point :: "catalog \<Rightarrow> string \<Rightarrow> string \<Rightarrow> py_error + string option" where
  "convert_connection_point cat wokwi_point mode =
     (if contains wokwi_point ''breadboard''
      then (if mode = ''logical'' then Inr None
            else if CHR ''p'' \<in> set wokwi_point \<or> CHR ''n'' \<in> set wokwi_point
            then (case split1 wokwi_point (CHR '':'') of
                    [bb, addr] \<Rightarrow>
                      (case split_all addr (CHR ''.'') of
                         [row, col_side] \<Rightarrow>
                           (let col = filter isdigit_char col_side
                            in Inr (Some (''breadboard.'' @ col @ row)))
                       | _ \<Rightarrow> Inl ValueError)
                  | _ \<Rightarrow> Inl IndexError)
            else (case split1 wokwi_point (CHR '':'') of
                    [bb, addr] \<Rightarrow>
                      (case split1 addr (CHR ''.'') of
                         [col_side, row] \<Rightarrow>
                           (let col = filter isdigit_char col_side
                            in Inr (Some (''breadboard.'' @ col @ row)))
                       | _ \<Rightarrow> Inl ValueError)
                  | _ \<Rightarrow> Inl IndexError))
      else if CHR '':'' \<in> set wokwi_point
      then (case split1 wokwi_point (CHR '':'') of
              [component_id, wokwi_pin] \<Rightarrow>
                (case wokwi_to_shdf_pin cat component_id wokwi_pin of
                   Inl e \<Rightarrow> Inl e
                 | Inr shdf_pin \<Rightarrow> Inr (Some (component_id @ ''.'' @ lower shdf_pin)))
            | _ \<Rightarrow> Inl ValueError)
      else Inr (Some wokwi_point))"

text \<open>The loop over \<open>part["attrs"]\<close>; the Greek capital omega is two bytes in UTF-8.\<close>

fun extract_properties :: "string \<Rightarrow> dict \<Rightarrow> dict \<Rightarrow> dict" where
  "extract_properties shdf_component_type [] props = props"
| "extract_properties shdf_component_type ((key, val) # rest) props =
     (if key = ''color''
      then extract_properties shdf_component_type rest (AList.update ''color'' (lower val) props)
      else if key = ''value'' \<and> shdf_component_type = ''resistor''
      then (if \<not> endswith val ''ohm'' \<and> \<not> endswith val [CHR 0xCE, CHR 0xA9]
            then extract_properties shdf_component_type rest
                   (AList.update ''value'' (val @ '' ohm'') props)
            else extract_properties shdf_component_type rest (AList.update ''value'' val props))
      else if key \<in> set [''label'', ''frequency'', ''threshold'']
      then extract_properties shdf_component_type rest (AList.update key val props)
      else extract_properties shdf_component_type rest props)"

text \<open>
  One round of the loop over the parts: the part as the caller sees it afterwards (the
  code assigns \<open>part["attrs"]\<close> for a 4-digit display) and the component, or \<open>None\<close> for
  the breadboard in logical mode.
\<close>

definition convert_part :: "catalog \<Rightarrow> string \<Rightarrow> wokwi_part \<Rightarrow> wokwi_part \<times> shdf_component option" where
  "convert_part cat mode part =
     (if mode = ''logical'' \<and> part_type part = ''wokwi-breadboard'' then (part, None)
      else
        (let digits = (case attrs part of
                         None \<Rightarrow> []
                       | Some a \<Rightarrow> (case map_of a ''digits'' of None \<Rightarrow> [] | Some d \<Rightarrow> d));
             four = (part_type part = ''wokwi-7segment'' \<and> digits = ''4'');
             wokwi_component_type = (if four then ''4-digit wokwi-7segment'' else part_type part);
             part' = (if four then part\<lparr>attrs := Some []\<rparr> else part);
             shdf_component_type = wokwi_to_shdf_type cat wokwi_component_type;
             props = (case attrs part' of
                        None \<Rightarrow> None
                      | Some a \<Rightarrow>
                          (let ps = extract_properties shdf_component_type a []
                           in if ps = [] then None else Some ps))
         in (part', Some \<lparr>comp_id = part_id part, comp_type = Some shdf_component_type,
                          properties = props\<rparr>)))"

fun convert_parts :: "catalog \<Rightarrow> string \<Rightarrow> wokwi_part list \<Rightarrow> wokwi_part list \<times> shdf_component list" where
  "convert_parts cat mode [] = ([], [])"
| "convert_parts cat mode (part # rest) =
     (case convert_part cat mode part of
        (part', r) \<Rightarrow>
          (case convert_parts cat mode rest of
             (rest', cs) \<Rightarrow> (part' # rest', (case r of None \<Rightarrow> cs | Some c \<Rightarrow> c # cs))))"

text \<open>A point is kept when it is neither \<open>None\<close> nor the empty string.\<close>

definition truthy :: "string option \<Rightarrow> bool" where
  "truthy p = (case p of None \<Rightarrow> False | Some s \<Rightarrow> s \<noteq> [])"

fun convert_wokwi_connections ::
  "catalog \<Rightarrow> string \<Rightarrow> wokwi_connection list \<Rightarrow> py_error + string list list" where
  "convert_wokwi_connections cat mode [] = Inr []"
| "convert_wokwi_connections cat mode (conn # rest) =
     (if mode = ''logical'' \<and> contains (from_point conn) ''breadboard''
         \<and> contains (to_point conn) ''breadboard''
      then convert_wokwi_connections cat mode rest
      else (case convert_connection_point cat (from_point conn) mode of
              Inl e \<Rightarrow> Inl e
            | Inr shdf_from_point \<Rightarrow>
                (case convert_connection_point cat (to_point conn) mode of
                   Inl e \<Rightarrow> Inl e
                 | Inr shdf_to_point \<Rightarrow>
                     (case convert_wokwi_connections cat mode rest of
                        Inl e \<Rightarrow> Inl e
                      | Inr cs \<Rightarrow>
                          Inr (if truthy shdf_from_point \<and> truthy shdf_to_point
                               then [the shdf_from_point, the shdf_to_point] # cs
                               else cs)))))"

definition convert_wokwi_to_standard ::
  "catalog \<Rightarrow> wokwi_doc \<Rightarrow> string \<Rightarrow> wokwi_doc \<times> (py_error + shdf_doc)" where
  "convert_wokwi_to_standard cat wokwi_diagram mode =
     (case convert_parts cat mode (parts wokwi_diagram) of
        (parts', cs) \<Rightarrow>
          (wokwi_diagram\<lparr>parts := parts'\<rparr>,
           case convert_wokwi_connections cat mode (wokwi_connections wokwi_diagram) of
             Inl e \<Rightarrow> Inl e
           | Inr conns \<Rightarrow> Inr \<lparr>components = cs, connections = conns\<rparr>))"

section \<open>The round trip in logical mode\<close>

text \<open>
  The id and the type with which a component comes back from the two translations of one
  component, in logical mode; \<open>None\<close> when it does not come back (it is skipped, or a
  translation raises).
\<close>

definition component_back :: "catalog \<Rightarrow> shdf_component \<Rightarrow> (string \<times> string option) option" where
  "component_back cat c =
     (case snd (convert_component cat ''logical'' 0 c) of
        Inr (Some (p, ty)) \<Rightarrow>
          (case snd (convert_part cat ''logical'' p) of
             Some c' \<Rightarrow> Some (comp_id c', comp_type c')
           | None \<Rightarrow> None)
      | _ \<Rightarrow> None)"



section \<open>validator.py\<close>

text \<open>
  The JSON schema and the library that checks a document against it are a parameter: a
  function from the document to the outcome of \<open>validate(instance, schema)\<close>.
\<close>

datatype schema_result =
  Conforms | ValidationError string | SchemaError string | OtherException string

text \<open>
  \<open>validate_shdf\<close> works on \<open>shdf_data.copy()\<close>, a shallow copy: the component objects are
  those of the caller, and their \<open>type\<close> is overwritten with its lower-case form.  The
  first component of the result is the caller's document after the call.
\<close>

fun normalize_components :: "catalog \<Rightarrow> shdf_component list \<Rightarrow> shdf_component list \<times> string list" where
  "normalize_components cat [] = ([], [])"
| "normalize_components cat (component # rest) =
     (case normalize_components cat rest of
        (rest', errs) \<Rightarrow>
          (case comp_type component of
             None \<Rightarrow> (component # rest', errs)
           | Some t \<Rightarrow>
               (let ct = lower t
                in (component\<lparr>comp_type := Some ct\<rparr> # rest',
                    (if map_of (SHDF_TYPE_ALIASES cat) ct = None \<and> ct \<notin> snd ` set (TYPE_MAPPINGS cat)
                     then [''Invalid component type: '' @ ct] else []) @ errs))))"

definition validate_shdf ::
  "(shdf_doc \<Rightarrow> schema_result) \<Rightarrow> catalog \<Rightarrow> shdf_doc \<Rightarrow> shdf_doc \<times> bool \<times> string list" where
  "validate_shdf schema cat shdf_data =
     (case normalize_components cat (components shdf_data) of
        (cs', errors) \<Rightarrow>
          (let normalized_data = shdf_data\<lparr>components := cs'\<rparr>
           in if errors \<noteq> [] then (normalized_data, False, errors)
              else (case schema normalized_data of
                      Conforms \<Rightarrow> (normalized_data, True, [])
                    | ValidationError m \<Rightarrow> (normalized_data, False, [''Validation error: '' @ m])
                    | SchemaError m \<Rightarrow> (normalized_data, False, [''Schema error: '' @ m])
                    | OtherException m \<Rightarrow> (normalized_data, False, [''Unexpected error: '' @ m]))))"

definition unknown_id_errors :: "string set \<Rightarrow> nat \<Rightarrow> nat \<Rightarrow> string \<Rightarrow> string list" where
  "unknown_id_errors valid_ids i j endpoint =
     (if CHR ''.'' \<in> set endpoint
      then (let cid = hd (split1 endpoint (CHR ''.''))
            in if cid \<notin> valid_ids \<and> cid \<noteq> ''breadboard''
               then [''Connection '' @ str_nat i @ '' endpoint '' @ str_nat j
                     @ '' references unknown component ID: '' @ cid]
               else [])
      else [])"

text \<open>The two nested loops over the connections and their endpoints, shared by the checks.\<close>

definition for_each_endpoint :: "(nat \<Rightarrow> nat \<Rightarrow> string \<Rightarrow> string list) \<Rightarrow> string list list \<Rightarrow> string list" where
  "for_each_endpoint f conns =
     concat (map (\<lambda>(i, connection). concat (map (\<lambda>(j, endpoint). f i j endpoint)
                                                  (enumerate 0 connection)))
                 (enumerate 0 conns))"

definition validate_component_ids :: "shdf_doc \<Rightarrow> bool \<times> string list" where
  "validate_component_ids shdf_data =
     (let component_ids = map comp_id (components shdf_data);
          errors = (if \<not> distinct component_ids then [''Component IDs must be unique''] else [])
                   @ for_each_endpoint (unknown_id_errors (set component_ids)) (connections shdf_data)
      in (errors = [], errors))"

text \<open>
  The patterns of \<open>validate_pin_names\<close>: \<open>^\<close>\<open>re.escape(name)\<close>\<open>$\<close> for the names of the
  catalog, and the three patterns of the breadboard; all are matched with \<open>re.IGNORECASE\<close>.
\<close>

datatype pin_pattern =
  Literal string
| AnyName
| PinCell
| BnRail

definition isname_char :: "char \<Rightarrow> bool" where
  "isname_char c = (isalpha_char c \<or> isdigit_char c \<or> c = CHR ''_'' \<or> c = CHR ''.'')"

definition chomp :: "string \<Rightarrow> string" where
  "chomp s = (if s \<noteq> [] \<and> last s = CHR 0x0A then butlast s else s)"

fun pin_matches :: "pin_pattern \<Rightarrow> string \<Rightarrow> bool" where
  "pin_matches (Literal p) s = before_dollar (\<lambda>x. lower x = lower p) s"
| "pin_matches AnyName s = (chomp s \<noteq> [] \<and> list_all isname_char (chomp s))"
| "pin_matches PinCell s =
     (startswith (lower s) ''pin'' \<and>
      (case rev (chomp (drop 3 s)) of
         row # dot # side # ds \<Rightarrow>
           isalpha_char row \<and> dot = CHR ''.'' \<and> isalpha_char side \<and> isdigit (rev ds)
       | _ \<Rightarrow> False))"
| "pin_matches BnRail s = (startswith (lower s) ''bn.'' \<and> isdigit (chomp (drop 3 s)))"

definition add_pattern :: "pin_pattern \<Rightarrow> pin_pattern list \<Rightarrow> pin_pattern list" where
  "add_pattern p ps = (if p \<in> set ps then ps else ps @ [p])"

definition get_all_pin_patterns :: "catalog \<Rightarrow> (string \<times> pin_pattern list) list" where
  "get_all_pin_patterns cat =
     (let from_pins =
            foldl (\<lambda>d (ty, mappings).
                     AList.update ty (foldl (\<lambda>ps (w, shdf_pin). add_pattern (Literal (lower shdf_pin)) ps)
                                            [] mappings) d)
                  [] (PIN_MAPPINGS cat)
      in foldl (\<lambda>d (ty, mappings).
                  AList.update ty (foldl (\<lambda>ps (alias, p). add_pattern (Literal (lower alias)) ps)
                                         (case map_of d ty of None \<Rightarrow> [] | Some ps \<Rightarrow> ps) mappings) d)
               from_pins (PIN_NAME_ALIASES cat))"

definition pin_name_errors ::
  "(string \<times> pin_pattern list) list \<Rightarrow> dict \<Rightarrow> nat \<Rightarrow> nat \<Rightarrow> string \<Rightarrow> string list" where
  "pin_name_errors pin_patterns comp_types i j endpoint =
     (if startswith endpoint ''breadboard.'' then []
      else if CHR ''.'' \<in> set endpoint
      then (case split1 endpoint (CHR ''.'') of
              [cid, pin] \<Rightarrow>
                (case map_of comp_types cid of
                   None \<Rightarrow> []
                 | Some t \<Rightarrow>
                     (let ct = lower t;
                          patterns = (case map_of pin_patterns ct of None \<Rightarrow> [AnyName] | Some ps \<Rightarrow> ps)
                      in if \<not> list_ex (\<lambda>pattern. pin_matches pattern pin) patterns
                         then [''Connection '' @ str_nat i @ '' endpoint '' @ str_nat j
                               @ '' uses invalid pin name: '' @ pin @ '' for component type: '' @ ct]
                         else []))
            | _ \<Rightarrow> [])
      else [])"

text \<open>
  \<open>comp["type"]\<close> in the dictionary of component types raises \<open>KeyError\<close> for a component
  without \<open>type\<close>.
\<close>

fun comp_types_of :: "shdf_component list \<Rightarrow> dict \<Rightarrow> py_error + dict" where
  "comp_types_of [] d = Inr d"
| "comp_types_of (component # rest) d =
     (case comp_type component of
        None \<Rightarrow> Inl KeyError
      | Some t \<Rightarrow> comp_types_of rest (AList.update (comp_id component) t d))"

definition validate_pin_names :: "catalog \<Rightarrow> shdf_doc \<Rightarrow> py_error + bool \<times> string list" where
  "validate_pin_names cat shdf_data =
     (let pin_patterns = AList.update ''breadboard'' [AnyName, PinCell, BnRail] (get_all_pin_patterns cat)
      in case comp_types_of (components shdf_data) [] of
           Inl e \<Rightarrow> Inl e
         | Inr comp_types \<Rightarrow>
             (let errors = for_each_endpoint (pin_name_errors pin_patterns comp_types)
                                             (connections shdf_data)
              in Inr (errors = [], errors)))"

text \<open>
  In a pattern on a \<open>str\<close>, \<open>\d\<close> is any character of the Unicode category Nd, and \<open>int\<close>
  reads these digits.  They come in blocks of ten consecutive code points for the digits 0
  to 9; these are the first code points of the blocks (Unicode 14, the table of Python 3.11).
\<close>

definition decimal_blocks :: "int list" where
  "decimal_blocks =
     [
      0x30, 0x660, 0x6F0, 0x7C0, 0x966, 0x9E6, 0xA66, 0xAE6, 0xB66, 0xBE6,
      0xC66, 0xCE6, 0xD66, 0xDE6, 0xE50, 0xED0, 0xF20, 0x1040, 0x1090, 0x17E0,
      0x1810, 0x1946, 0x19D0, 0x1A80, 0x1A90, 0x1B50, 0x1BB0, 0x1C40, 0x1C50, 0xA620,
      0xA8D0, 0xA900, 0xA9D0, 0xA9F0, 0xAA50, 0xABF0, 0xFF10, 0x104A0, 0x10D30, 0x11066,
      0x110F0, 0x11136, 0x111D0, 0x112F0, 0x11450, 0x114D0, 0x11650, 0x116C0, 0x11730, 0x118E0,
      0x11950, 0x11C50, 0x11D50, 0x11DA0, 0x16A60, 0x16AC0, 0x16B50, 0x1D7CE, 0x1D7D8, 0x1D7E2,
      0x1D7EC, 0x1D7F6, 0x1E140, 0x1E2F0, 0x1E950, 0x1FBF0]"

definition decimal_value :: "int \<Rightarrow> nat option" where
  "decimal_value cp =
     (case filter (\<lambda>b. b \<le> cp \<and> cp < b + 10) decimal_blocks of
        [] \<Rightarrow> None
      | b # bs \<Rightarrow> Some (nat (cp - b)))"

text \<open>
  The code point at the head of a string and the rest of the string; the string is the
  UTF-8 encoding, of one to four bytes for a character, in its shortest form.
\<close>

definition continuation :: "char \<Rightarrow> int option" where
  "continuation c =
     (if (0x80 :: int) \<le> of_char c \<and> of_char c < (0xC0 :: int) then Some (of_char c - 0x80) else None)"

fun decode_char :: "string \<Rightarrow> (int \<times> string) option" where
  "decode_char [] = None"
| "decode_char (c # cs) =
     (let b = (of_char c :: int)
      in if b < 0x80 then Some (b, cs)
         else if 0xC2 \<le> b \<and> b < 0xE0
         then (case cs of
                 c1 # rest \<Rightarrow>
                   (case continuation c1 of
                      Some x1 \<Rightarrow> Some ((b - 0xC0) * 64 + x1, rest)
                    | None \<Rightarrow> None)
               | _ \<Rightarrow> None)
         else if 0xE0 \<le> b \<and> b < 0xF0
         then (case cs of
                 c1 # c2 # rest \<Rightarrow>
                   (case (continuation c1, continuation c2) of
                      (Some x1, Some x2) \<Rightarrow>
                        (let cp = (b - 0xE0) * 4096 + x1 * 64 + x2
                         in if 0x800 \<le> cp then Some (cp, rest) else None)
                    | _ \<Rightarrow> None)
               | _ \<Rightarrow> None)
         else if 0xF0 \<le> b \<and> b < 0xF5
         then (case cs of
                 c1 # c2 # c3 # rest \<Rightarrow>
                   (case (continuation c1, continuation c2, continuation c3) of
                      (Some x1, Some x2, Some x3) \<Rightarrow>
                        (let cp = (b - 0xF0) * 262144 + x1 * 4096 + x2 * 64 + x3
                         in if 0x10000 \<le> cp then Some (cp, rest) else None)
                    | _ \<Rightarrow> None)
               | _ \<Rightarrow> None)
         else None)"

text \<open>
  \<open>int(s)\<close> on a string of decimal digits, from the left with the number read so far;
  \<open>None\<close> when a character of the string is not a decimal digit.
\<close>

function int_decimal :: "nat \<Rightarrow> string \<Rightarrow> nat option" where
  "int_decimal acc s =
     (if s = [] then Some acc
      else (case decode_char s of
              None \<Rightarrow> None
            | Some (cp, rest) \<Rightarrow>
                (case decimal_value cp of
                   None \<Rightarrow> None
                 | Some v \<Rightarrow> int_decimal (10 * acc + v) rest)))"
  by pat_completeness auto
termination
  by (relation "measure (\<lambda>(acc, s). length s)")
     (auto simp: neq_Nil_conv Let_def split: if_splits list.splits option.splits)

declare int_decimal.simps [simp del]

text \<open>
  The group \<^verbatim>\<open>(\d+)\<close> of a pattern, read by \<open>int\<close>: one decimal digit at least.  Since
  Python 3.11 \<open>int\<close> raises \<open>ValueError\<close> on a string of more than 4300 digits; a column of
  that length is outside the model.
\<close>

definition column_group :: "string \<Rightarrow> nat option" where
  "column_group g = (if g = [] then None else int_decimal 0 g)"

text \<open>A byte of an ASCII digit, or a byte of a character outside ASCII.\<close>

definition digit_byte :: "char \<Rightarrow> bool" where
  "digit_byte c = (((48 :: int) \<le> of_char c \<and> of_char c \<le> (57 :: int)) \<or> (0x80 :: int) \<le> of_char c)"

text \<open>
  The three patterns of \<open>validate_breadboard_positions\<close>; each matcher returns the number
  that \<open>int\<close> reads from the column group of its pattern:
  \<^verbatim>\<open>^breadboard\.(\d+)([a-j])$\<close>, \<^verbatim>\<open>^breadboard\.pin(\d+)([tb])\.([a-j])$\<close> and
  \<^verbatim>\<open>^breadboard\.bn\.(\d+)$\<close>.
\<close>

definition match_pattern0 :: "string \<Rightarrow> nat option" where
  "match_pattern0 endpoint =
     (if startswith endpoint ''breadboard.''
      then (case rev (chomp (drop 11 endpoint)) of
              row # ds \<Rightarrow> if row \<in> set ''abcdefghij'' then column_group (rev ds) else None
            | _ \<Rightarrow> None)
      else None)"

definition match_pattern1 :: "string \<Rightarrow> nat option" where
  "match_pattern1 endpoint =
     (if startswith endpoint ''breadboard.pin''
      then (case rev (chomp (drop 14 endpoint)) of
              row # dot # side # ds \<Rightarrow>
                if row \<in> set ''abcdefghij'' \<and> dot = CHR ''.'' \<and> side \<in> set ''tb''
                then column_group (rev ds) else None
            | _ \<Rightarrow> None)
      else None)"

definition match_pattern2 :: "string \<Rightarrow> nat option" where
  "match_pattern2 endpoint =
     (if startswith endpoint ''breadboard.bn.'' then column_group (chomp (drop 14 endpoint)) else None)"

definition column_error :: "nat \<Rightarrow> nat \<Rightarrow> nat \<Rightarrow> string" where
  "column_error i j column =
     ''Connection '' @ str_nat i @ '' endpoint '' @ str_nat j
     @ '' has invalid breadboard column: '' @ str_nat column @ '' (must be 1-60)''"

definition format_error :: "nat \<Rightarrow> nat \<Rightarrow> string \<Rightarrow> string" where
  "format_error i j endpoint =
     ''Connection '' @ str_nat i @ '' endpoint '' @ str_nat j
     @ '' has invalid breadboard position format: '' @ endpoint"

definition check_column :: "nat \<Rightarrow> nat \<Rightarrow> nat \<Rightarrow> string list" where
  "check_column i j column =
     (if column < 1 \<or> column > 60 then [column_error i j column] else [])"

text \<open>
  The body of the loop over the endpoints: the three patterns are tried in order, the
  column is checked for the first and the second only.
\<close>

definition breadboard_position_errors :: "nat \<Rightarrow> nat \<Rightarrow> string \<Rightarrow> string list" where
  "breadboard_position_errors i j endpoint =
     (if startswith endpoint ''breadboard.''
      then (let e0 = (case match_pattern0 endpoint of None \<Rightarrow> [] | Some column \<Rightarrow> check_column i j column);
                e1 = (case match_pattern1 endpoint of None \<Rightarrow> [] | Some column \<Rightarrow> check_column i j column);
                valid_format = (match_pattern0 endpoint \<noteq> None \<or> match_pattern1 endpoint \<noteq> None
                                \<or> match_pattern2 endpoint \<noteq> None)
            in e0 @ e1 @ (if \<not> valid_format then [format_error i j endpoint] else []))
      else [])"

definition validate_breadboard_positions :: "shdf_doc \<Rightarrow> bool \<times> string list" where
  "validate_breadboard_positions shdf_data =
     (let errors = for_each_endpoint breadboard_position_errors (connections shdf_data)
      in (errors = [], errors))"

definition validate_shdf_document ::
  "(shdf_doc \<Rightarrow> schema_result) \<Rightarrow> catalog \<Rightarrow> shdf_doc \<Rightarrow> shdf_doc \<times> (py_error + bool \<times> string list)" where
  "validate_shdf_document schema cat shdf_data =
     (case validate_shdf schema cat shdf_data of
        (data, is_valid, errors) \<Rightarrow>
          if \<not> is_valid then (data, Inr (False, errors))
          else (let ids_errors = snd (validate_component_ids data)
                in case validate_pin_names cat data of
                     Inl e \<Rightarrow> (data, Inl e)
                   | Inr (pins_valid, pins_errors) \<Rightarrow>
                       (let all_errors = errors @ ids_errors @ pins_errors
                                         @ snd (validate_breadboard_positions data)
                        in (data, Inr (all_errors = [], all_errors)))))"

section \<open>hardware\_metrics.py\<close>

record duplicates =
  duplicate_connections :: nat
  duplicate_connection_list :: "(nat \<times> string list) list"

text \<open>
  The loop of \<open>check_duplicate_connections\<close>: the state is the set of the pairs seen so
  far and the result; \<open>sorted\<close> orders the strings as Python does, character by character.
\<close>

fun duplicate_loop ::
  "(nat \<times> string list) list \<Rightarrow> string list set \<Rightarrow> duplicates \<Rightarrow> duplicates" where
  "duplicate_loop [] unique_connections results = results"
| "duplicate_loop ((i, connection) # rest) unique_connections results =
     (let conn_pair = sort (take 2 connection)
      in if conn_pair \<in> unique_connections
         then duplicate_loop rest unique_connections
                (results\<lparr>duplicate_connections := duplicate_connections results + 1,
                         duplicate_connection_list :=
                           duplicate_connection_list results @ [(i, connection)]\<rparr>)
         else duplicate_loop rest (insert conn_pair unique_connections) results)"

definition check_duplicate_connections :: "shdf_doc \<Rightarrow> duplicates" where
  "check_duplicate_connections diagram =
     duplicate_loop (enumerate 0 (connections diagram)) {}
       \<lparr>duplicate_connections = 0, duplicate_connection_list = []\<rparr>"

record attr_mismatch =
  component_id :: string
  component_type :: string
  attribute :: string
  generated_value :: string
  reference_value :: string








text \<open>
  A connection at index \<open>i\<close> has been seen before when an earlier connection of the list has
  the same sorted pair of endpoints.
\<close>

definition seen_before :: "string list list \<Rightarrow> nat \<times> string list \<Rightarrow> bool" where
  "seen_before cs = (\<lambda>(i, c). \<exists>k<i. sort (take 2 (cs ! k)) = sort (take 2 c))"

section \<open>An example catalog\<close>

text \<open>
  Three records of the shape of the catalog source document, for the examples below: the
  microcontroller board, the LED and the resistor.
\<close>

definition example_module_info :: "module_entry list" where
  "example_module_info =
     [\<lparr>wokwi_type = ''wokwi-arduino-uno'', shdf_type = ''Arduino Uno'',
       shdf_type_aliases = [''arduino'', ''uno''],
       pins = [\<lparr>pin_name = ''13'', description = ''Digital pin 13'', pin_aliases = [''d13'']\<rparr>,
               \<lparr>pin_name = ''GND.1'', description = ''Ground'', pin_aliases = [''gnd'']\<rparr>]\<rparr>,
      \<lparr>wokwi_type = ''wokwi-led'', shdf_type = ''LED'',
       shdf_type_aliases = [''light emitting diode''],
       pins = [\<lparr>pin_name = ''A'', description = ''Anode'', pin_aliases = [''anode'']\<rparr>,
               \<lparr>pin_name = ''C'', description = ''Cathode'', pin_aliases = [''cathode'']\<rparr>]\<rparr>,
      \<lparr>wokwi_type = ''wokwi-resistor'', shdf_type = ''Resistor'',
       shdf_type_aliases = [],
       pins = [\<lparr>pin_name = ''1'', description = ''Terminal 1'', pin_aliases = []\<rparr>,
               \<lparr>pin_name = ''2'', description = ''Terminal 2'', pin_aliases = []\<rparr>]\<rparr>]"

text \<open>The tables that the two modules build from these records.\<close>

definition example_catalog :: catalog where
  "example_catalog =
     \<lparr>TYPE_MAPPINGS = [(''wokwi-arduino-uno'', ''arduino uno''), (''wokwi-led'', ''led''),
                       (''wokwi-resistor'', ''resistor'')],
      SHDF_TYPE_ALIASES = [(''arduino uno'', ''arduino uno''), (''arduino'', ''arduino uno''),
                           (''uno'', ''arduino uno''), (''led'', ''led''),
                           (''light emitting diode'', ''led''), (''resistor'', ''resistor'')],
      REVERSE_TYPE_MAPPINGS = [(''arduino uno'', ''wokwi-arduino-uno''), (''led'', ''wokwi-led''),
                               (''resistor'', ''wokwi-resistor'')],
      PIN_MAPPINGS = [(''arduino uno'', [(''13'', ''pin13''), (''GND.1'', ''gnd1'')]),
                      (''led'', [(''A'', ''a''), (''C'', ''c'')]),
                      (''resistor'', [(''1'', ''pin1''), (''2'', ''pin2'')])],
      PIN_NAME_ALIASES = [(''arduino uno'', [(''pin13'', ''pin13''), (''d13'', ''pin13''),
                                             (''gnd1'', ''gnd1''), (''gnd'', ''gnd1'')]),
                          (''led'', [(''a'', ''a''), (''anode'', ''a''), (''c'', ''c''),
                                     (''cathode'', ''c'')]),
                          (''resistor'', [(''pin1'', ''pin1''), (''pin2'', ''pin2'')])],
      REVERSE_PIN_MAPPINGS = [(''arduino uno'', [(''pin13'', ''13''), (''gnd1'', ''GND.1'')]),
                              (''led'', [(''a'', ''A''), (''c'', ''C'')]),
                              (''resistor'', [(''pin1'', ''1''), (''pin2'', ''2'')])],
      COMPONENT_TYPE_ALIASES = [(''arduino uno'', ''arduino uno''), (''arduino'', ''arduino uno''),
                                (''uno'', ''arduino uno''), (''led'', ''led''),
                                (''light emitting diode'', ''led''), (''resistor'', ''resistor'')]\<rparr>"

section \<open>Strings: auxiliary facts\<close>

lemma digits_filter_digit: "list_all isdigit_char col \<Longrightarrow> filter isdigit_char col = col"
  by (induction col) auto

lemma digits_filter_alpha: "list_all isdigit_char col \<Longrightarrow> filter isalpha_char col = []"
  by (induction col) (auto simp: isdigit_char_def isalpha_char_def)

lemma digits_not_member:
  "list_all isdigit_char col \<Longrightarrow> \<not> isdigit_char c \<Longrightarrow> c \<notin> set col"
  by (auto simp: list_all_iff)


lemma row_facts:
  assumes "row \<in> set ''abcdefghij''"
  shows "isalpha_char row" "\<not> isdigit_char row" "row \<noteq> CHR ''p''" "row \<noteq> CHR ''n''"
    "row \<noteq> CHR ''.''" "row \<noteq> CHR '':''" "lower_char row = row"
  using assms by (auto simp: isalpha_char_def isdigit_char_def lower_char_def)

lemma contains_row: "contains ''abcde'' [row] \<longleftrightarrow> row \<in> set ''abcde''"
  by auto




lemma digits_no_punct:
  assumes "list_all isdigit_char col"
  shows "CHR ''p'' \<notin> set col" "CHR ''n'' \<notin> set col" "CHR ''.'' \<notin> set col" "CHR '':'' \<notin> set col"
  using assms digits_not_member[of col "CHR ''p''"] digits_not_member[of col "CHR ''n''"]
      digits_not_member[of col "CHR ''.''"] digits_not_member[of col "CHR '':''"]
  by (simp_all add: isdigit_char_def)




lemma strip_to_simulator:
  assumes "list_all isdigit_char col" and "row \<in> set ''abcdefghij''"
  shows "convert_to_wokwi_point cat (''breadboard.'' @ col @ [row]) ctm =
           Inr (''breadboard:'' @ col @ [if row \<in> set ''abcde'' then CHR ''t'' else CHR ''b''] @ ''.'' @ [row])"
proof -
  note nd = digits_no_punct[OF assms(1)]
  have c: "contains (''breadboard.'' @ col @ [row]) ''breadboard'' = True"
    by simp
  have s: "split1 (''breadboard.'' @ col @ [row]) (CHR ''.'') = [''breadboard'', col @ [row]]"
    by (simp add: split1_def)
  have p: "(CHR ''p'' \<in> set (col @ [row]) \<or> CHR ''n'' \<in> set (col @ [row])) = False"
    using nd row_facts[OF assms(2)] by auto
  have fd: "filter isdigit_char (col @ [row]) = col"
    using assms(1) row_facts[OF assms(2)] by (simp add: digits_filter_digit)
  have fa: "filter isalpha_char (col @ [row]) = [row]"
    using assms(1) row_facts[OF assms(2)] by (simp add: digits_filter_alpha)
  have side: "contains ''abcde'' (lower [row]) = (row \<in> set ''abcde'')"
    using row_facts[OF assms(2)] contains_row[of row] by (simp add: lower_def)
  show ?thesis
    apply (simp only: convert_to_wokwi_point_def c s if_True if_False list.case Let_def p fd fa side)
    apply simp
    done
qed

section \<open>The breadboard address translator\<close>




text \<open>
  The name of the breadboard part is not kept either: the translation to the neutral format
  drops it and writes \<open>breadboard\<close>; and a side that does not belong to the row is replaced
  by the one that does.
\<close>

lemma breadboard_part_id_not_kept:
  "convert_connection_point example_catalog ''breadboard1:10t.a'' ''physical'' = Inr (Some ''breadboard.10a'')
   \<and> convert_to_wokwi_point example_catalog ''breadboard.10a'' [] = Inr ''breadboard:10t.a''
   \<and> convert_connection_point example_catalog ''breadboard:10b.a'' ''physical'' = Inr (Some ''breadboard.10a'')"
  by code_simp

text \<open>
  Claim C8.  Row/side determinism: the neutral strip address \<open>breadboard.<col><row>\<close> is
  translated with side \<open>t\<close> when the row is one of \<open>a\<close>..\<open>e\<close> and with side \<open>b\<close> when it
  is one of \<open>f\<close>..\<open>j\<close>, whatever the column.
\<close>

theorem convert_to_wokwi_point_side:
  assumes "list_all isdigit_char col" and "row \<in> set ''abcdefghij''"
  shows "convert_to_wokwi_point cat (''breadboard.'' @ col @ [row]) ctm =
           Inr (''breadboard:'' @ col @ (if row \<in> set ''abcde'' then ''t'' else ''b'') @ ''.'' @ [row])"
  using strip_to_simulator[OF assms, of cat ctm] by simp

theorem convert_to_wokwi_point_side_witness:
  "list_all isdigit_char ''10'' \<and> CHR ''a'' \<in> set ''abcdefghij'' \<and> CHR ''f'' \<in> set ''abcdefghij''
   \<and> convert_to_wokwi_point example_catalog ''breadboard.10a'' [] = Inr ''breadboard:10t.a''
   \<and> convert_to_wokwi_point example_catalog ''breadboard.10f'' [] = Inr ''breadboard:10b.f''"
  using convert_to_wokwi_point_side [of "''10''" "CHR ''a''" example_catalog "[]"]
        convert_to_wokwi_point_side [of "''10''" "CHR ''f''" example_catalog "[]"]
  by (simp add: isdigit_char_def)

section \<open>The pin mapper\<close>

text \<open>
  Claim C4.  The claim is that neither direction of the pin translation raises on a name
  that cannot be resolved, and that the pin is returned unchanged.  The code does not do
  that: \<open>shdf_to_wokwi_pin\<close> raises \<open>KeyError\<close> for a pin that is not in the tables of its
  type (\<open>foo\<close> of an LED) and for a type that is not in the catalog (\<open>buzzer\<close>), and
  \<open>wokwi_to_shdf_pin\<close> raises \<open>UnboundLocalError\<close> for a component id whose type is not in
  the alias table (\<open>buzzer1\<close>).  Only \<open>wokwi_to_shdf_pin\<close> with a known type and an unknown
  pin returns the pin as it is.
\<close>

theorem pin_translation_raises:
  "shdf_to_wokwi_pin example_catalog ''foo'' ''led'' = Inl KeyError
   \<and> shdf_to_wokwi_pin example_catalog ''anode'' ''buzzer'' = Inl KeyError
   \<and> wokwi_to_shdf_pin example_catalog ''buzzer1'' ''1'' = Inl UnboundLocalError
   \<and> wokwi_to_shdf_pin example_catalog ''led1'' ''X'' = Inr ''X''"
  by code_simp

section \<open>Resistor values\<close>




















section \<open>What the calls do to their input\<close>

lemma validate_shdf_fst:
  "fst (validate_shdf schema cat d) = d\<lparr>components := fst (normalize_components cat (components d))\<rparr>"
  by (simp add: validate_shdf_def Let_def split: prod.splits schema_result.splits)

lemma validate_shdf_document_fst:
  "fst (validate_shdf_document schema cat d)
     = d\<lparr>components := fst (normalize_components cat (components d))\<rparr>"
  using validate_shdf_fst[of schema cat d]
  by (auto simp: validate_shdf_document_def Let_def split: prod.splits sum.splits)

text \<open>
  Claim C10.  The claim is that the three calls leave the caller's document as it was.
  The code changes it: after \<open>validate_shdf_document\<close> the type \<open>LED\<close> of a component
  reads \<open>led\<close>, whatever the schema check says; after \<open>convert_standard_to_wokwi\<close> a 4-digit
  display has the properties \<open>{"digits": "4"}\<close>; after \<open>convert_wokwi_to_standard\<close> the
  attributes of a 4-digit display are empty.
\<close>

theorem input_documents_are_changed:
  "fst (validate_shdf_document schema example_catalog
          \<lparr>components = [\<lparr>comp_id = ''led1'', comp_type = Some ''LED'', properties = None\<rparr>],
           connections = []\<rparr>)
     = \<lparr>components = [\<lparr>comp_id = ''led1'', comp_type = Some ''led'', properties = None\<rparr>],
        connections = []\<rparr>
   \<and> fst (convert_standard_to_wokwi example_catalog md5
          \<lparr>components = [\<lparr>comp_id = ''disp1'', comp_type = Some ''4-digit 7-segment display'',
                           properties = None\<rparr>],
           connections = []\<rparr> ''logical'')
     = \<lparr>components = [\<lparr>comp_id = ''disp1'', comp_type = Some ''4-digit 7-segment display'',
                         properties = Some [(''digits'', ''4'')]\<rparr>],
        connections = []\<rparr>
   \<and> fst (convert_wokwi_to_standard example_catalog
          \<lparr>version = 1, author = [], editor = [],
           parts = [\<lparr>part_type = ''wokwi-7segment'', part_id = ''sevseg1'', top = 0, left = 0,
                     rotate = None, attrs = Some [(''digits'', ''4''), (''color'', ''red'')]\<rparr>],
           wokwi_connections = []\<rparr> ''physical'')
     = \<lparr>version = 1, author = [], editor = [],
        parts = [\<lparr>part_type = ''wokwi-7segment'', part_id = ''sevseg1'', top = 0, left = 0,
                  rotate = None, attrs = Some []\<rparr>],
        wokwi_connections = []\<rparr>"
proof (intro conjI)
  show "fst (validate_shdf_document schema example_catalog
          \<lparr>components = [\<lparr>comp_id = ''led1'', comp_type = Some ''LED'', properties = None\<rparr>],
           connections = []\<rparr>)
     = \<lparr>components = [\<lparr>comp_id = ''led1'', comp_type = Some ''led'', properties = None\<rparr>],
        connections = []\<rparr>"
    unfolding validate_shdf_document_fst by code_simp
qed code_simp+

section \<open>Duplicate connections\<close>

lemma sort_eq_iff_mset: "sort xs = sort ys \<longleftrightarrow> mset xs = mset ys"
proof
  assume "sort xs = sort ys"
  then have "mset (sort xs) = mset (sort ys)" by simp
  then show "mset xs = mset ys" by simp
next
  assume "mset xs = mset ys"
  then show "sort xs = sort ys"
    by (metis mset_sort properties_for_sort sorted_sort)
qed

lemma duplicate_loop_spec:
  "duplicate_loop (enumerate (length pre) xs) ((\<lambda>c. sort (take 2 c)) ` set pre) res
     = \<lparr>duplicate_connections = duplicate_connections res
           + length (filter (seen_before (pre @ xs)) (enumerate (length pre) xs)),
        duplicate_connection_list = duplicate_connection_list res
           @ filter (seen_before (pre @ xs)) (enumerate (length pre) xs)\<rparr>"
proof (induction xs arbitrary: pre res)
  case Nil
  then show ?case by simp
next
  case (Cons x xs)
  let ?U = "(\<lambda>c. sort (take 2 c)) ` set pre"
  let ?p = "sort (take 2 x)"
  have mem: "?p \<in> ?U \<longleftrightarrow> seen_before (pre @ x # xs) (length pre, x)"
  proof
    assume "?p \<in> ?U"
    then obtain c where c: "c \<in> set pre" "?p = sort (take 2 c)" by auto
    then obtain k where k: "k < length pre" "pre ! k = c" by (auto simp: in_set_conv_nth)
    have "sort (take 2 ((pre @ x # xs) ! k)) = ?p"
      using k c by (simp add: nth_append)
    then show "seen_before (pre @ x # xs) (length pre, x)"
      unfolding seen_before_def using k(1) by auto
  next
    assume "seen_before (pre @ x # xs) (length pre, x)"
    then obtain k where k: "k < length pre" "sort (take 2 ((pre @ x # xs) ! k)) = ?p"
      by (auto simp: seen_before_def)
    then have "sort (take 2 (pre ! k)) = ?p" by (simp add: nth_append)
    then show "?p \<in> ?U" using k(1) by (metis image_eqI nth_mem)
  qed
  let ?E = "enumerate (Suc (length pre)) xs"
  let ?L = "pre @ x # xs"
  have IH: "duplicate_loop ?E (insert ?p ?U) r
     = \<lparr>duplicate_connections = duplicate_connections r + length (filter (seen_before ?L) ?E),
        duplicate_connection_list = duplicate_connection_list r @ filter (seen_before ?L) ?E\<rparr>" for r
    using Cons.IH[of "pre @ [x]" r] by simp
  have en: "enumerate (length pre) (x # xs) = (length pre, x) # ?E"
    by simp
  show ?case
  proof (cases "?p \<in> ?U")
    case True
    have abs: "insert ?p ?U = ?U" using True by (rule insert_absorb)
    have flt: "filter (seen_before ?L) ((length pre, x) # ?E) = (length pre, x) # filter (seen_before ?L) ?E"
      using True mem by simp
    have step: "duplicate_loop ((length pre, x) # ?E) ?U res
        = duplicate_loop ?E ?U (res\<lparr>duplicate_connections := duplicate_connections res + 1,
                                       duplicate_connection_list :=
                                         duplicate_connection_list res @ [(length pre, x)]\<rparr>)"
      using True by (simp only: duplicate_loop.simps Let_def if_True)
    show ?thesis
      unfolding en step flt using IH[unfolded abs] by simp
  next
    case False
    have flt: "filter (seen_before ?L) ((length pre, x) # ?E) = filter (seen_before ?L) ?E"
      using False mem by simp
    have step: "duplicate_loop ((length pre, x) # ?E) ?U res = duplicate_loop ?E (insert ?p ?U) res"
      using False by (simp only: duplicate_loop.simps Let_def if_False)
    show ?thesis
      unfolding en step flt using IH by simp
  qed
qed

text \<open>
  Claim C9.  Duplicate detection does not depend on the order of the endpoints: the
  connections that \<open>check_duplicate_connections\<close> lists are exactly those whose first two
  endpoints, as an unordered pair (a multiset), are those of an earlier connection, and the
  count is the length of that list.  For \<open>["a.x","b.y"]\<close> followed by \<open>["b.y","a.x"]\<close>
  exactly one duplicate is flagged, the second connection.
\<close>

theorem duplicate_detection_unordered:
  "duplicate_connection_list (check_duplicate_connections diagram)
     = filter (\<lambda>(i, c). \<exists>k<i. mset (take 2 (connections diagram ! k)) = mset (take 2 c))
              (enumerate 0 (connections diagram))
   \<and> duplicate_connections (check_duplicate_connections diagram)
     = length (duplicate_connection_list (check_duplicate_connections diagram))
   \<and> check_duplicate_connections \<lparr>components = [], connections = [[''a.x'', ''b.y''], [''b.y'', ''a.x'']]\<rparr>
     = \<lparr>duplicate_connections = 1, duplicate_connection_list = [(1, [''b.y'', ''a.x''])]\<rparr>"
proof -
  have sb: "seen_before cs = (\<lambda>(i, c). \<exists>k<i. mset (take 2 (cs ! k)) = mset (take 2 c))" for cs
    by (simp add: seen_before_def sort_eq_iff_mset)
  have spec: "check_duplicate_connections diagram
     = \<lparr>duplicate_connections = length (filter (seen_before (connections diagram)) (enumerate 0 (connections diagram))),
        duplicate_connection_list = filter (seen_before (connections diagram)) (enumerate 0 (connections diagram))\<rparr>"
    using duplicate_loop_spec[of "[]" "connections diagram"
        "\<lparr>duplicate_connections = 0, duplicate_connection_list = []\<rparr>"]
    by (simp add: check_duplicate_connections_def)
  have ex: "check_duplicate_connections \<lparr>components = [], connections = [[''a.x'', ''b.y''], [''b.y'', ''a.x'']]\<rparr>
     = \<lparr>duplicate_connections = 1, duplicate_connection_list = [(1, [''b.y'', ''a.x''])]\<rparr>"
    by code_simp
  show ?thesis
    unfolding spec sb using ex[unfolded spec sb] by simp
qed

section \<open>Breadboard positions in the validator\<close>

lemma decode_char_shape:
  assumes "decode_char s = Some (cp, rest)"
  shows "\<exists>pre. s = pre @ rest \<and> pre \<noteq> []
           \<and> (if cp < 0x80 then pre = [hd s] \<and> of_char (hd s) = cp
               else (0x80 :: int) \<le> of_char (hd pre) \<and> (0x80 :: int) \<le> of_char (last pre))"
proof (cases s)
  case Nil
  then show ?thesis using assms by simp
next
  case (Cons c cs)
  show ?thesis
    using assms unfolding Cons
    by (auto simp: Let_def continuation_def split: if_splits list.splits option.splits)
qed

lemma decimal_value_ascii:
  assumes "decimal_value cp = Some v" and "cp < 0x80"
  shows "48 \<le> cp \<and> cp \<le> 57 \<and> v = nat (cp - 48)"
  using assms by (simp add: decimal_value_def decimal_blocks_def split: if_splits)

lemma int_decimal_ends:
  "int_decimal acc s = Some n \<Longrightarrow> s \<noteq> [] \<Longrightarrow> digit_byte (hd s) \<and> digit_byte (last s)"
proof (induction acc s rule: int_decimal.induct)
  case (1 acc s)
  from "1.prems" obtain cp rest v where d: "decode_char s = Some (cp, rest)"
      "decimal_value cp = Some v" "int_decimal (10 * acc + v) rest = Some n"
    by (subst (asm) int_decimal.simps) (auto split: option.splits)
  obtain pre where pre: "s = pre @ rest" "pre \<noteq> []"
      "if cp < 0x80 then pre = [hd s] \<and> of_char (hd s) = cp
       else (0x80 :: int) \<le> of_char (hd pre) \<and> (0x80 :: int) \<le> of_char (last pre)"
    using decode_char_shape[OF d(1)] by blast
  have hs: "hd s = hd pre"
    using pre(1,2) by simp
  have gp: "digit_byte (hd pre) \<and> digit_byte (last pre)"
  proof (cases "cp < 0x80")
    case True
    then have "pre = [hd s]" and c: "of_char (hd s) = cp"
      using pre(3) by simp_all
    then have "hd pre = hd s" "last pre = hd s"
      by simp_all
    moreover have "digit_byte (hd s)"
      using c True decimal_value_ascii[OF d(2)] by (simp add: digit_byte_def)
    ultimately show ?thesis
      by simp
  next
    case False
    then show ?thesis
      using pre(3) by (simp add: digit_byte_def)
  qed
  show ?case
  proof (cases "rest = []")
    case True
    then show ?thesis using gp pre(1) hs by simp
  next
    case False
    then have "digit_byte (last rest)"
      using "1.IH"[OF "1.prems"(2) d(1) refl d(2) d(3)] by simp
    then show ?thesis
      using gp hs pre(1) False by simp
  qed
qed

lemma digit_byte_facts:
  assumes "digit_byte c"
  shows "c \<noteq> CHR ''p''" "c \<noteq> CHR ''b''" "c \<noteq> CHR 0x0A" "c \<notin> set ''abcdefghij''"
  using assms by (auto simp: digit_byte_def)

lemma chomp_line_feed:
  "x \<noteq> [] \<Longrightarrow> last x \<noteq> CHR 0x0A \<Longrightarrow> nl = [] \<or> nl = [CHR 0x0A] \<Longrightarrow> chomp (x @ nl) = x"
  by (auto simp: chomp_def)

lemma chomp_cases: "x = chomp x \<or> x = chomp x @ [CHR 0x0A]"
  by (cases x rule: rev_cases) (auto simp: chomp_def)

lemma startswith_drop: "startswith e p \<Longrightarrow> e = p @ drop (length p) e"
  by (induction e p rule: startswith.induct) auto

lemma int_decimal_not_digit:
  assumes "(of_char c :: int) < 0x80" and "\<not> ((48 :: int) \<le> of_char c \<and> of_char c \<le> (57 :: int))"
  shows "int_decimal acc (c # cs) = None"
proof -
  have "decimal_value (of_char c) = None"
  proof (cases "decimal_value (of_char c)")
    case None
    then show ?thesis .
  next
    case (Some v)
    then show ?thesis using decimal_value_ascii[OF Some assms(1)] assms(2) by simp
  qed
  then show ?thesis
    using assms(1) by (subst int_decimal.simps) (simp add: Let_def)
qed


lemma match_strip_cell:
  assumes "ds \<noteq> []" and "int_decimal 0 ds = Some n" and "row \<in> set ''abcdefghij''"
    and "nl = [] \<or> nl = [CHR 0x0A]"
  shows "match_pattern0 (''breadboard.'' @ ds @ [row] @ nl) = Some n"
    and "match_pattern1 (''breadboard.'' @ ds @ [row] @ nl) = None"
    and "match_pattern2 (''breadboard.'' @ ds @ [row] @ nl) = None"
proof -
  obtain d ds' where d: "ds = d # ds'"
    using assms(1) by (cases ds) auto
  have "digit_byte d"
    using int_decimal_ends[OF assms(2,1)] d by simp
  note df = digit_byte_facts[OF this]
  have "chomp ((ds @ [row]) @ nl) = ds @ [row]"
    using assms(3,4) by (intro chomp_line_feed) auto
  then have ch: "chomp (ds @ row # nl) = ds @ [row]"
    by simp
  show "match_pattern0 (''breadboard.'' @ ds @ [row] @ nl) = Some n"
    using assms(1,2,3) ch by (simp add: match_pattern0_def column_group_def)
  show "match_pattern1 (''breadboard.'' @ ds @ [row] @ nl) = None"
    using df d by (simp add: match_pattern1_def)
  show "match_pattern2 (''breadboard.'' @ ds @ [row] @ nl) = None"
    using df d by (simp add: match_pattern2_def)
qed

lemma match_pin_cell:
  assumes "ds \<noteq> []" and "int_decimal 0 ds = Some n" and "row \<in> set ''abcdefghij''"
    and "side \<in> set ''tb''" and "nl = [] \<or> nl = [CHR 0x0A]"
  shows "match_pattern0 (''breadboard.pin'' @ ds @ [side, CHR ''.'', row] @ nl) = None"
    and "match_pattern1 (''breadboard.pin'' @ ds @ [side, CHR ''.'', row] @ nl) = Some n"
    and "match_pattern2 (''breadboard.pin'' @ ds @ [side, CHR ''.'', row] @ nl) = None"
proof -
  have "chomp (((xs @ ds @ [side, CHR ''.'']) @ [row]) @ nl) = (xs @ ds @ [side, CHR ''.'']) @ [row]" for xs
    using assms(3,5) by (intro chomp_line_feed) auto
  then have ch: "chomp (xs @ ds @ side # CHR ''.'' # row # nl) = xs @ ds @ [side, CHR ''.'', row]" for xs
    by simp
  have np: "int_decimal 0 (CHR ''p'' # xs) = None" for xs
    by (rule int_decimal_not_digit) simp_all
  show "match_pattern0 (''breadboard.pin'' @ ds @ [side, CHR ''.'', row] @ nl) = None"
    using ch[of "''pin''"] np by (simp add: match_pattern0_def column_group_def)
  show "match_pattern1 (''breadboard.pin'' @ ds @ [side, CHR ''.'', row] @ nl) = Some n"
    using ch[of "[]"] assms(1,2,3,4) by (simp add: match_pattern1_def column_group_def)
  show "match_pattern2 (''breadboard.pin'' @ ds @ [side, CHR ''.'', row] @ nl) = None"
    by (simp add: match_pattern2_def)
qed

lemma match_bn_rail:
  assumes "ds \<noteq> []" and "int_decimal 0 ds = Some n" and "nl = [] \<or> nl = [CHR 0x0A]"
  shows "match_pattern0 (''breadboard.bn.'' @ ds @ nl) = None"
    and "match_pattern1 (''breadboard.bn.'' @ ds @ nl) = None"
    and "match_pattern2 (''breadboard.bn.'' @ ds @ nl) = Some n"
proof -
  have "digit_byte (last ds)"
    using int_decimal_ends[OF assms(2,1)] by simp
  note df = digit_byte_facts[OF this]
  have "chomp ((xs @ ds) @ nl) = xs @ ds" for xs
    using assms(1,3) df(3) by (intro chomp_line_feed) auto
  then have ch: "chomp (xs @ ds @ nl) = xs @ ds" for xs
    by simp
  obtain ds' d where d: "ds = ds' @ [d]"
    using assms(1) by (cases ds rule: rev_cases) auto
  have nrow: "d \<notin> set ''abcdefghij''"
    using df(4) d by simp
  show "match_pattern0 (''breadboard.bn.'' @ ds @ nl) = None"
    using ch[of "''bn.''"] nrow d by (simp add: match_pattern0_def)
  show "match_pattern1 (''breadboard.bn.'' @ ds @ nl) = None"
    by (simp add: match_pattern1_def)
  show "match_pattern2 (''breadboard.bn.'' @ ds @ nl) = Some n"
    using ch[of "[]"] assms(1,2) by (simp add: match_pattern2_def column_group_def)
qed

lemma column_group_Some:
  "column_group g = Some n \<Longrightarrow> g \<noteq> [] \<and> int_decimal 0 g = Some n"
  by (simp add: column_group_def split: if_splits)

lemma rev_eq_Cons: "rev x = a # g \<Longrightarrow> x = rev g @ [a]"
  by (simp add: rev_eq_Cons_iff)

lemma match_pattern0_form:
  assumes "match_pattern0 e = Some n"
  shows "\<exists>ds row nl. ds \<noteq> [] \<and> int_decimal 0 ds = Some n \<and> row \<in> set ''abcdefghij''
           \<and> (nl = [] \<or> nl = [CHR 0x0A]) \<and> e = ''breadboard.'' @ ds @ [row] @ nl"
proof -
  have sw: "startswith e ''breadboard.''"
    using assms by (simp add: match_pattern0_def split: if_splits)
  obtain row g where r: "rev (chomp (drop 11 e)) = row # g" "row \<in> set ''abcdefghij''"
      "column_group (rev g) = Some n"
    using assms sw by (simp add: match_pattern0_def split: list.splits if_splits)
  have c: "chomp (drop 11 e) = rev g @ [row]"
    using rev_eq_Cons[OF r(1)] .
  have len: "length ''breadboard.'' = 11"
    by simp
  have e: "e = ''breadboard.'' @ drop 11 e"
    using startswith_drop[OF sw] unfolding len .
  obtain nl where nl: "nl = [] \<or> nl = [CHR 0x0A]" "drop 11 e = (rev g @ [row]) @ nl"
    using chomp_cases[of "drop 11 e"] unfolding c by auto
  have "e = ''breadboard.'' @ rev g @ [row] @ nl"
    using e nl(2) by simp
  then show ?thesis
    using column_group_Some[OF r(3)] r(2) nl(1) by blast
qed

lemma match_pattern1_form:
  assumes "match_pattern1 e = Some n"
  shows "\<exists>ds row side nl. ds \<noteq> [] \<and> int_decimal 0 ds = Some n \<and> row \<in> set ''abcdefghij''
           \<and> side \<in> set ''tb'' \<and> (nl = [] \<or> nl = [CHR 0x0A])
           \<and> e = ''breadboard.pin'' @ ds @ [side, CHR ''.'', row] @ nl"
proof -
  have sw: "startswith e ''breadboard.pin''"
    using assms by (simp add: match_pattern1_def split: if_splits)
  obtain row side g where r: "rev (chomp (drop 14 e)) = row # CHR ''.'' # side # g"
      "row \<in> set ''abcdefghij''" "side \<in> set ''tb''" "column_group (rev g) = Some n"
    using assms sw by (simp add: match_pattern1_def split: list.splits if_splits)
  have "chomp (drop 14 e) = rev (CHR ''.'' # side # g) @ [row]"
    using rev_eq_Cons[OF r(1)] .
  then have c: "chomp (drop 14 e) = rev g @ [side, CHR ''.'', row]"
    by simp
  have len: "length ''breadboard.pin'' = 14"
    by simp
  have e: "e = ''breadboard.pin'' @ drop 14 e"
    using startswith_drop[OF sw] unfolding len .
  obtain nl where nl: "nl = [] \<or> nl = [CHR 0x0A]" "drop 14 e = (rev g @ [side, CHR ''.'', row]) @ nl"
    using chomp_cases[of "drop 14 e"] unfolding c by auto
  have "e = ''breadboard.pin'' @ rev g @ [side, CHR ''.'', row] @ nl"
    using e nl(2) by simp
  then show ?thesis
    using column_group_Some[OF r(4)] r(2,3) nl(1) by blast
qed

lemma match_pattern2_form:
  assumes "match_pattern2 e = Some n"
  shows "\<exists>ds nl. ds \<noteq> [] \<and> int_decimal 0 ds = Some n \<and> (nl = [] \<or> nl = [CHR 0x0A])
           \<and> e = ''breadboard.bn.'' @ ds @ nl"
proof -
  have sw: "startswith e ''breadboard.bn.''"
    using assms by (simp add: match_pattern2_def split: if_splits)
  have g: "column_group (chomp (drop 14 e)) = Some n"
    using assms sw by (simp add: match_pattern2_def)
  have len: "length ''breadboard.bn.'' = 14"
    by simp
  have e: "e = ''breadboard.bn.'' @ drop 14 e"
    using startswith_drop[OF sw] unfolding len .
  obtain nl where nl: "nl = [] \<or> nl = [CHR 0x0A]" "drop 14 e = chomp (drop 14 e) @ nl"
    using chomp_cases[of "drop 14 e"] by auto
  have "e = ''breadboard.bn.'' @ chomp (drop 14 e) @ nl"
    using e nl(2) by simp
  then show ?thesis
    using column_group_Some[OF g] nl(1) by blast
qed

lemma check_column_range:
  "check_column i j n = (if 1 \<le> n \<and> n \<le> 60 then [] else [column_error i j n])"
  by (auto simp: check_column_def)

text \<open>
  Claim C7, amended.  An address of the breadboard is one of three forms, with a column
  \<open>ds\<close> of one decimal digit at least that \<open>int\<close> reads as \<open>n\<close> (\<open>int\<close> reads a string of
  4300 digits at most), a row \<open>a\<close>..\<open>j\<close> and a side \<open>t\<close> or \<open>b\<close>; the patterns end in \<open>$\<close>, so
  that a line feed \<open>nl\<close> may follow:
  the strip cell \<open>breadboard.<col><row>\<close>, the cell \<open>breadboard.pin<col><side>.<row>\<close> and
  the rail \<open>breadboard.bn.<col>\<close>.  The two cells get the out-of-range error exactly when
  the column is outside 1..60, and no other error; the rail gets no error, whatever its
  column; every other endpoint that starts with \<open>breadboard.\<close> gets the format error.  The
  errors of a document are those of its endpoints, in the order of the connections and of
  their endpoints (each endpoint of 4300 characters at most).
\<close>

theorem breadboard_position_check:
  assumes "ds \<noteq> []" and "int_decimal 0 ds = Some n"
    and "row \<in> set ''abcdefghij''" and "side \<in> set ''tb''" and "nl = [] \<or> nl = [CHR 0x0A]"
    and "startswith e ''breadboard.''" and "length ds \<le> 4300"
    and "list_all (list_all (\<lambda>endpoint. length endpoint \<le> 4300)) (connections d)"
  shows "breadboard_position_errors i j (''breadboard.'' @ ds @ [row] @ nl)
           = (if 1 \<le> n \<and> n \<le> 60 then [] else [column_error i j n])
       \<and> breadboard_position_errors i j (''breadboard.pin'' @ ds @ [side, CHR ''.'', row] @ nl)
           = (if 1 \<le> n \<and> n \<le> 60 then [] else [column_error i j n])
       \<and> breadboard_position_errors i j (''breadboard.bn.'' @ ds @ nl) = []
       \<and> ((\<exists>ds' n' row' side' nl'. ds' \<noteq> [] \<and> int_decimal 0 ds' = Some n'
              \<and> row' \<in> set ''abcdefghij'' \<and> side' \<in> set ''tb'' \<and> (nl' = [] \<or> nl' = [CHR 0x0A])
              \<and> (e = ''breadboard.'' @ ds' @ [row'] @ nl'
                  \<or> e = ''breadboard.pin'' @ ds' @ [side', CHR ''.'', row'] @ nl'
                  \<or> e = ''breadboard.bn.'' @ ds' @ nl'))
            \<or> breadboard_position_errors i j e = [format_error i j e])
       \<and> validate_breadboard_positions d
           = (let errors = concat (map (\<lambda>(i, connection).
                                         concat (map (\<lambda>(j, endpoint). breadboard_position_errors i j endpoint)
                                                     (enumerate 0 connection)))
                                       (enumerate 0 (connections d)))
              in (errors = [], errors))"
proof -
  have sw: "startswith (''breadboard.'' @ xs) ''breadboard.''" for xs
    by simp
  have A: "breadboard_position_errors i j (''breadboard.'' @ ds @ [row] @ nl)
           = (if 1 \<le> n \<and> n \<le> 60 then [] else [column_error i j n])"
    unfolding breadboard_position_errors_def match_strip_cell[OF assms(1,2,3,5)]
    using sw[of "ds @ [row] @ nl"] by (simp add: check_column_range)
  have B: "breadboard_position_errors i j (''breadboard.pin'' @ ds @ [side, CHR ''.'', row] @ nl)
           = (if 1 \<le> n \<and> n \<le> 60 then [] else [column_error i j n])"
    unfolding breadboard_position_errors_def match_pin_cell[OF assms(1,2,3,4,5)]
    using sw[of "''pin'' @ ds @ [side, CHR ''.'', row] @ nl"] by (simp add: check_column_range)
  have C: "breadboard_position_errors i j (''breadboard.bn.'' @ ds @ nl) = []"
    unfolding breadboard_position_errors_def match_bn_rail[OF assms(1,2,5)]
    by simp
  let ?form = "\<exists>ds' n' row' side' nl'. ds' \<noteq> [] \<and> int_decimal 0 ds' = Some n'
              \<and> row' \<in> set ''abcdefghij'' \<and> side' \<in> set ''tb'' \<and> (nl' = [] \<or> nl' = [CHR 0x0A])
              \<and> (e = ''breadboard.'' @ ds' @ [row'] @ nl'
                  \<or> e = ''breadboard.pin'' @ ds' @ [side', CHR ''.'', row'] @ nl'
                  \<or> e = ''breadboard.bn.'' @ ds' @ nl')"
  have t: "CHR ''t'' \<in> set ''tb''" "CHR ''a'' \<in> set ''abcdefghij''"
    by simp_all
  have D: "?form \<or> breadboard_position_errors i j e = [format_error i j e]"
  proof (cases "match_pattern0 e")
    case (Some n0)
    then show ?thesis
      using match_pattern0_form[OF Some] t(1) by blast
  next
    case m0: None
    show ?thesis
    proof (cases "match_pattern1 e")
      case (Some n1)
      then show ?thesis
        using match_pattern1_form[OF Some] by blast
    next
      case m1: None
      show ?thesis
      proof (cases "match_pattern2 e")
        case (Some n2)
        then show ?thesis
          using match_pattern2_form[OF Some] t by blast
      next
        case m2: None
        have "breadboard_position_errors i j e = [format_error i j e]"
          unfolding breadboard_position_errors_def using assms(6) m0 m1 m2 by simp
        then show ?thesis ..
      qed
    qed
  qed
  have E: "validate_breadboard_positions d
           = (let errors = concat (map (\<lambda>(i, connection).
                                         concat (map (\<lambda>(j, endpoint). breadboard_position_errors i j endpoint)
                                                     (enumerate 0 connection)))
                                       (enumerate 0 (connections d)))
              in (errors = [], errors))"
    by (simp add: validate_breadboard_positions_def for_each_endpoint_def)
  show ?thesis
    using A B C D E by (simp only: simp_thms)
qed

text \<open>
  Claim C7, as stated, fails on the rail address with a column: \<open>breadboard.bn.61\<close> and
  \<open>breadboard.bn.0\<close> are outside 1..60 and no error is reported.
\<close>

theorem breadboard_rail_counterexample:
  "validate_breadboard_positions
     \<lparr>components = [], connections = [[''breadboard.bn.61'', ''breadboard.bn.0'']]\<rparr> = (True, [])"
  by code_simp

text \<open>
  The amended claim at \<open>breadboard.61a\<close> (out of range), \<open>breadboard.60a\<close> (no error),
  \<open>breadboard.pin61t.a\<close>, \<open>breadboard.bn.61\<close> and \<open>breadboard.50tn\<close> (not an address), and at
  the column 3 written with the Arabic-Indic digit (the bytes D9 A3).
\<close>

theorem breadboard_position_check_witness:
  "''61'' \<noteq> [] \<and> int_decimal 0 ''61'' = Some 61 \<and> int_decimal 0 [CHR 0xD9, CHR 0xA3] = Some 3
   \<and> CHR ''a'' \<in> set ''abcdefghij'' \<and> CHR ''t'' \<in> set ''tb''
   \<and> startswith ''breadboard.50tn'' ''breadboard.'' \<and> length ''61'' \<le> 4300
   \<and> list_all (list_all (\<lambda>endpoint. length endpoint \<le> 4300)) [[''breadboard.60a'', ''breadboard.61a'']]
   \<and> breadboard_position_errors 0 1 ''breadboard.61a''
        = [''Connection 0 endpoint 1 has invalid breadboard column: 61 (must be 1-60)'']
   \<and> breadboard_position_errors 0 1 ''breadboard.pin61t.a''
        = [''Connection 0 endpoint 1 has invalid breadboard column: 61 (must be 1-60)'']
   \<and> breadboard_position_errors 0 1 ''breadboard.bn.61'' = []
   \<and> breadboard_position_errors 0 1 (''breadboard.'' @ [CHR 0xD9, CHR 0xA3] @ ''a'') = []
   \<and> breadboard_position_errors 0 1 ''breadboard.50tn''
        = [''Connection 0 endpoint 1 has invalid breadboard position format: breadboard.50tn'']
   \<and> validate_breadboard_positions \<lparr>components = [], connections = [[''breadboard.60a'', ''breadboard.61a'']]\<rparr>
        = (False, [''Connection 0 endpoint 1 has invalid breadboard column: 61 (must be 1-60)''])"
proof -
  have h: "''61'' \<noteq> []" "int_decimal 0 ''61'' = Some 61"
    "CHR ''a'' \<in> set ''abcdefghij''" "CHR ''t'' \<in> set ''tb''" "[] = [] \<or> [] = [CHR 0x0A]"
    "startswith ''breadboard.50tn'' ''breadboard.''" "length ''61'' \<le> 4300"
    by code_simp+
  have b: "list_all (list_all (\<lambda>endpoint. length endpoint \<le> 4300))
             (connections \<lparr>components = [], connections = [[''breadboard.60a'', ''breadboard.61a'']]\<rparr>)"
      and b0: "list_all (list_all (\<lambda>endpoint. length endpoint \<le> 4300))
             (connections \<lparr>components = [], connections = []\<rparr>)"
    by simp_all
  have h3: "[CHR 0xD9, CHR 0xA3] \<noteq> []" "int_decimal 0 [CHR 0xD9, CHR 0xA3] = Some 3"
    by code_simp+
  have l3: "length [CHR 0xD9, CHR 0xA3] \<le> 4300"
    by simp
  have n: "column_error 0 1 61 = ''Connection 0 endpoint 1 has invalid breadboard column: 61 (must be 1-60)''"
    "breadboard_position_errors 0 1 ''breadboard.50tn''
       = [''Connection 0 endpoint 1 has invalid breadboard position format: breadboard.50tn'']"
    "concat (map (\<lambda>(i, connection).
                    concat (map (\<lambda>(j, endpoint). breadboard_position_errors i j endpoint)
                                (enumerate 0 connection)))
                 (enumerate 0 [[''breadboard.60a'', ''breadboard.61a'']]))
       = [''Connection 0 endpoint 1 has invalid breadboard column: 61 (must be 1-60)'']"
    by code_simp+
  show ?thesis
    using breadboard_position_check [OF h b, of 0 1]
      breadboard_position_check [OF h3 h(3,4,5,6) l3 b0, of 0 1] h h3 n
    by simp
qed

section \<open>The four checks of the validator\<close>







section \<open>Components of an unknown type\<close>

lemma shdf_alias_check_None: "shdf_alias_check cat t = None \<longleftrightarrow> t = None"
  by (auto simp: shdf_alias_check_def split: option.splits)


lemma convert_component_typed:
  assumes "comp_type c \<noteq> None"
  shows "(\<exists>e. snd (convert_component cat mode i c) = Inl e)
       \<or> (\<exists>p ty. snd (convert_component cat mode i c) = Inr (Some (p, ty))
                  \<and> (part_type p, part_id p) = part_of cat c)"
proof -
  obtain t where t: "shdf_alias_check cat (comp_type c) = Some t"
    using assms shdf_alias_check_None[of cat "comp_type c"] by (cases "shdf_alias_check cat (comp_type c)") auto
  show ?thesis
    unfolding convert_component_def part_of_def t
    by (auto simp: Let_def get_wokwi_type_def split: sum.splits prod.splits option.splits)
qed



lemma extract_attrs_not_resistor:
  "ty \<noteq> ''resistor'' \<Longrightarrow> \<exists>a. extract_attrs ty ps acc = Inr a"
  by (induction ps arbitrary: acc) auto

lemma extract_attrs_accepts:
  "(\<exists>a. extract_attrs ''resistor'' ps out = Inr a)
   \<longleftrightarrow> list_all (\<lambda>(key, val). if key = ''value''
                                    then isdigit (strip (replace (replace val ''ohm'' []) ''k'' ''000''))
                                    else True) ps"
proof (induction ps arbitrary: out)
  case Nil
  then show ?case by simp
next
  case (Cons kv ps)
  obtain key val where kv: "kv = (key, val)"
    by (cases kv)
  let ?v = "strip (replace (replace val ''ohm'' []) ''k'' ''000'')"
  show ?case
  proof (cases "key = ''value''")
    case True
    show ?thesis
    proof (cases "isdigit ?v")
      case d: True
      have "extract_attrs ''resistor'' (kv # ps) out
              = extract_attrs ''resistor'' ps (AList.update ''value'' ?v out)"
        using True d kv by (simp add: Let_def)
      then show ?thesis
        using Cons.IH[of "AList.update ''value'' ?v out"] True d kv by simp
    next
      case d: False
      have "extract_attrs ''resistor'' (kv # ps) out = Inl ValueError"
        using True d kv by (simp add: Let_def)
      then show ?thesis
        using True d kv by simp
    qed
  next
    case False
    have "extract_attrs ''resistor'' (kv # ps) out
            = extract_attrs ''resistor'' ps (if key \<in> set [''color'', ''digits'']
                                              then AList.update key val out else out)"
      using False kv by simp
    then show ?thesis
      using Cons.IH[of "if key \<in> set [''color'', ''digits''] then AList.update key val out else out"]
        False kv by simp
  qed
qed





lemma convert_component_accepted:
  assumes "properties_accepted cat c" and "shdf_alias_check cat (comp_type c) = Some t"
  shows "\<exists>c' p. convert_component cat mode i c
                   = (c', Inr (Some (p, if t = ''4-digit 7-segment display''
                                        then ''7-segment display'' else t)))"
proof -
  let ?ty = "if t = ''4-digit 7-segment display'' then ''7-segment display'' else t"
  let ?c' = "if t = ''4-digit 7-segment display''
             then c\<lparr>properties := Some [(''digits'', ''4'')]\<rparr> else c"
  have "\<exists>a. (case properties ?c' of None \<Rightarrow> Inr []
              | Some props \<Rightarrow> extract_attrs ?ty props []) = Inr a"
  proof (cases "?ty = ''resistor''")
    case True
    then have t: "t = ''resistor''"
      by (auto split: if_splits)
    show ?thesis
    proof (cases "properties c")
      case None
      then show ?thesis using t by simp
    next
      case (Some ps)
      then show ?thesis
        using assms t extract_attrs_accepts[of ps "[]"] by (simp add: properties_accepted_def)
    qed
  next
    case False
    then show ?thesis
      using extract_attrs_not_resistor[OF False] by (cases "properties ?c'") auto
  qed
  then obtain a where a: "(case properties ?c' of None \<Rightarrow> Inr []
                           | Some props \<Rightarrow> extract_attrs ?ty props []) = Inr a"
    by blast
  obtain tp lf rt where pos: "calculate_position (get_wokwi_type cat ?ty) i mode = (tp, lf, rt)"
    by (cases "calculate_position (get_wokwi_type cat ?ty) i mode") auto
  show ?thesis
    unfolding convert_component_def assms(2) option.case Let_def a pos
    by simp
qed






section \<open>The round trip of a document\<close>











text \<open>
  What comes back for a component whose simulator type is neither the breadboard nor the
  7-segment display: its id after \<open>_get_wokwi_id\<close> and its type after the two type
  mappers.  The component is stable when both are fixed points.
\<close>

lemma component_back_plain:
  assumes "shdf_alias_check cat (comp_type c) = Some t" and "t \<noteq> ''4-digit 7-segment display''"
    and "properties_accepted cat c"
    and "shdf_to_wokwi_type cat t \<noteq> ''wokwi-breadboard''"
    and "shdf_to_wokwi_type cat t \<noteq> ''wokwi-7segment''"
  shows "component_back cat c
           = Some (get_wokwi_id cat (comp_id c) t, Some (wokwi_to_shdf_type cat (shdf_to_wokwi_type cat t)))"
proof -
  obtain c1 p where cc: "convert_component cat ''logical'' 0 c = (c1, Inr (Some (p, t)))"
    using convert_component_accepted[OF assms(3,1), of "''logical''" 0] assms(2) by auto
  have "(part_type p, part_id p) = part_of cat c"
    using convert_component_typed[of c cat "''logical''" 0] cc assms(1) shdf_alias_check_None[of cat "comp_type c"]
    by auto
  then have p: "part_type p = shdf_to_wokwi_type cat t" "part_id p = get_wokwi_id cat (comp_id c) t"
    using assms(1,2) by (simp_all add: part_of_def)
  have "snd (convert_part cat ''logical'' p)
          = Some \<lparr>comp_id = part_id p, comp_type = Some (wokwi_to_shdf_type cat (part_type p)),
                  properties = (case attrs p of
                                  None \<Rightarrow> None
                                | Some a \<Rightarrow>
                                    (let ps = extract_properties (wokwi_to_shdf_type cat (part_type p)) a []
                                     in if ps = [] then None else Some ps))\<rparr>"
    using p(1) assms(4,5) by (simp add: convert_part_def Let_def)
  then show ?thesis
    using cc p by (simp add: component_back_def)
qed

end
